theory Spec2Isabelle
  imports Main "HOL-Library.Char_ord" "HOL-Library.List_Lexorder" "HOL-Library.Product_Lexorder"
begin

section \<open>Values of the remote store, as the client returns them\<close>

text \<open>
  The data-access layer of \<^verbatim>\<open>src/lib/queries.ts\<close> receives untyped rows from the store
  client and hands them on. Rows and results are therefore modelled as the JSON values the
  client yields. A JavaScript number is an \<open>int\<close> here (counts, offsets and limits);
  \<open>undefined\<close> and \<open>null\<close> are both \<open>JNull\<close>.
\<close>

datatype json =
    JNull
  | JBool bool
  | JNum int
  | JStr string
  | JArr "json list"
  | JObj "(string \<times> json) list"

type_synonym row = "(string \<times> json) list"

text \<open>Truthiness, as used by \<open>if (error)\<close>, \<open>!profile\<close>, \<open>a || b\<close>.\<close>

fun js_truthy :: "json \<Rightarrow> bool" where
  "js_truthy JNull = False"
| "js_truthy (JBool b) = b"
| "js_truthy (JNum n) = (n \<noteq> 0)"
| "js_truthy (JStr s) = (s \<noteq> [])"
| "js_truthy (JArr xs) = True"
| "js_truthy (JObj kvs) = True"

definition js_or :: "json \<Rightarrow> json \<Rightarrow> json" where
  "js_or a b = (if js_truthy a then a else b)"

text \<open>Property read \<open>v.k\<close> on a value that is not null (a missing property reads as null).\<close>

fun get_prop :: "json \<Rightarrow> string \<Rightarrow> json" where
  "get_prop (JObj kvs) k = (case map_of kvs k of Some v \<Rightarrow> v | None \<Rightarrow> JNull)"
| "get_prop v k = JNull"

text \<open>The object spread \<open>{...o, k: v}\<close>: an existing key keeps its place, a new one is appended.\<close>

fun set_field :: "string \<Rightarrow> json \<Rightarrow> row \<Rightarrow> row" where
  "set_field k v [] = [(k, v)]"
| "set_field k v ((k', v') # kvs) =
     (if k' = k then (k, v) # kvs else (k', v') # set_field k v kvs)"

definition patch :: "row \<Rightarrow> row \<Rightarrow> row" where
  "patch changes r = fold (\<lambda>(k, v). set_field k v) changes r"

text \<open>The own properties that a spread \<open>...v\<close> copies (rows are objects).\<close>

fun fields_of :: "json \<Rightarrow> row" where
  "fields_of (JObj kvs) = kvs"
| "fields_of v = []"

text \<open>\<open>v.length\<close>\<close>

fun js_length :: "json \<Rightarrow> json" where
  "js_length (JArr xs) = JNum (int (length xs))"
| "js_length (JStr s) = JNum (int (length s))"
| "js_length v = get_prop v ''length''"

text \<open>
  Key comparison of \<open>Set\<close> and \<open>Map\<close>: primitives by value, objects and arrays by
  identity (two parsed values are never the same object).
\<close>

fun is_primitive :: "json \<Rightarrow> bool" where
  "is_primitive (JArr xs) = False"
| "is_primitive (JObj kvs) = False"
| "is_primitive v = True"

definition same_value_zero :: "json \<Rightarrow> json \<Rightarrow> bool" where
  "same_value_zero a b = (is_primitive a \<and> a = b)"

text \<open>\<open>[...new Set(xs)]\<close>: the first occurrence of each value, in order.\<close>

fun js_set_values :: "json list \<Rightarrow> json list \<Rightarrow> json list" where
  "js_set_values seen [] = seen"
| "js_set_values seen (x # xs) =
     (if list_ex (\<lambda>y. same_value_zero y x) seen then js_set_values seen xs
      else js_set_values (seen @ [x]) xs)"

text \<open>\<open>new Map(pairs).get(k)\<close>: the value of the last pair stored under \<open>k\<close>.\<close>

definition js_map_get :: "(json \<times> json) list \<Rightarrow> json \<Rightarrow> json" where
  "js_map_get pairs k =
     (case filter (\<lambda>(k', v). same_value_zero k' k) pairs of
        [] \<Rightarrow> JNull
      | p # ps \<Rightarrow> snd (last (p # ps)))"

section \<open>Requests to the store client\<close>

text \<open>
  A request is what a builder chain \<open>supabase.from(t).select(..).eq(..)...\<close> has accumulated
  when it is awaited. The filter strings built by interpolation in the source
  (\<open>or(`and(requester_id.eq.${a},recipient_id.eq.${b}),...`)\<close>,
  \<open>not('id', 'in', `(${ids.join(',')})`)\<close>) are kept in parsed form: an "or" of
  conjunctions of column equalities, and a list of excluded values. This reads identifiers as
  plain tokens (UUIDs), without reserved characters of the filter grammar.
\<close>

datatype filter =
    Eq string json
  | Neq string json
  | In_list string "json list"
  | Not_in string "json list"
  | Or_of_ands "(string \<times> json) list list"

datatype verb = Select | Insert row | Update row | Upsert row | Delete | Rpc row

datatype cardinality = Many | Single | MaybeSingle

text \<open>An embedded resource \<open>alias:table!fk(*)\<close>: alias, referenced table, referencing column.\<close>

type_synonym embed = "string \<times> string \<times> string"

record request =
  target :: string
  verb :: verb
  columns :: "string list"
  embeds :: "embed list"
  count_head :: bool
  filters :: "filter list"
  ordering :: "(string \<times> bool) option"
  row_range :: "(int \<times> int) option"
  row_limit :: "int option"
  cardinality :: cardinality
  returning :: bool

definition from_table :: "string \<Rightarrow> request" where
  "from_table t = \<lparr>target = t, verb = Select, columns = [], embeds = [], count_head = False,
     filters = [], ordering = None, row_range = None, row_limit = None,
     cardinality = Many, returning = False\<rparr>"

definition rpc :: "string \<Rightarrow> row \<Rightarrow> request" where
  "rpc fn args = (from_table fn)\<lparr>verb := Rpc args\<rparr>"

definition select :: "string list \<Rightarrow> request \<Rightarrow> request" where
  "select cols q = q\<lparr>columns := cols, returning := True\<rparr>"

definition select_embed :: "string list \<Rightarrow> embed list \<Rightarrow> request \<Rightarrow> request" where
  "select_embed cols es q = q\<lparr>columns := cols, embeds := es, returning := True\<rparr>"

definition select_count_head :: "string list \<Rightarrow> request \<Rightarrow> request" where
  "select_count_head cols q = q\<lparr>columns := cols, count_head := True, returning := True\<rparr>"

definition insert_row :: "row \<Rightarrow> request \<Rightarrow> request" where
  "insert_row r q = q\<lparr>verb := Insert r\<rparr>"

definition update_rows :: "row \<Rightarrow> request \<Rightarrow> request" where
  "update_rows r q = q\<lparr>verb := Update r\<rparr>"

definition upsert_row :: "row \<Rightarrow> request \<Rightarrow> request" where
  "upsert_row r q = q\<lparr>verb := Upsert r\<rparr>"

definition delete_rows :: "request \<Rightarrow> request" where
  "delete_rows q = q\<lparr>verb := Delete\<rparr>"

definition add_filter :: "filter \<Rightarrow> request \<Rightarrow> request" where
  "add_filter f q = q\<lparr>filters := filters q @ [f]\<rparr>"

definition eq :: "string \<Rightarrow> json \<Rightarrow> request \<Rightarrow> request" where
  "eq c v = add_filter (Eq c v)"

definition neq :: "string \<Rightarrow> json \<Rightarrow> request \<Rightarrow> request" where
  "neq c v = add_filter (Neq c v)"

definition in_list :: "string \<Rightarrow> json list \<Rightarrow> request \<Rightarrow> request" where
  "in_list c vs = add_filter (In_list c vs)"

definition not_in :: "string \<Rightarrow> json list \<Rightarrow> request \<Rightarrow> request" where
  "not_in c vs = add_filter (Not_in c vs)"

definition or_filter :: "(string \<times> json) list list \<Rightarrow> request \<Rightarrow> request" where
  "or_filter cs = add_filter (Or_of_ands cs)"

definition order_by :: "string \<Rightarrow> bool \<Rightarrow> request \<Rightarrow> request" where
  "order_by c ascending q = q\<lparr>ordering := Some (c, ascending)\<rparr>"

definition range_rows :: "int \<Rightarrow> int \<Rightarrow> request \<Rightarrow> request" where
  "range_rows a b q = q\<lparr>row_range := Some (a, b)\<rparr>"

definition limit_rows :: "int \<Rightarrow> request \<Rightarrow> request" where
  "limit_rows n q = q\<lparr>row_limit := Some n\<rparr>"

definition single :: "request \<Rightarrow> request" where
  "single q = q\<lparr>cardinality := Single\<rparr>"

definition maybeSingle :: "request \<Rightarrow> request" where
  "maybeSingle q = q\<lparr>cardinality := MaybeSingle\<rparr>"

text \<open>\<open>query t [f, g, h]\<close> is the chain \<open>supabase.from(t).f.g.h\<close>.\<close>

definition query :: "string \<Rightarrow> (request \<Rightarrow> request) list \<Rightarrow> request" where
  "query t steps = fold (\<lambda>f q. f q) steps (from_table t)"

definition is_write :: "request \<Rightarrow> bool" where
  "is_write q = (case verb q of Select \<Rightarrow> False | _ \<Rightarrow> True)"

text \<open>The awaited result \<open>{ data, error, count }\<close>.\<close>

record response =
  data :: json
  error :: json
  count :: "int option"

section \<open>Effects: remote calls, the clock, exceptions\<close>

text \<open>
  An awaited call either yields a response or throws. The store and the clock are a
  parameter: any behaviour of the client is an environment. Every request that is awaited
  is recorded in a trace, so that "no write occurs" and "no remote call" are statements
  about the trace. \<open>debugLog\<close> writes to the console only and is left out.
\<close>

datatype 'a outcome = Returned 'a | Raised json

record 'w env =
  respond :: "request \<Rightarrow> 'w \<Rightarrow> response outcome \<times> 'w"
  now :: "'w \<Rightarrow> string \<times> 'w"

record 'w run_state =
  world :: 'w
  trace :: "request list"

type_synonym ('w, 'a) io = "'w run_state \<Rightarrow> 'a outcome \<times> 'w run_state"

definition ret :: "'a \<Rightarrow> ('w, 'a) io" where
  "ret x s = (Returned x, s)"

definition throw :: "json \<Rightarrow> ('w, 'a) io" where
  "throw e s = (Raised e, s)"

definition bnd :: "('w, 'a) io \<Rightarrow> ('a \<Rightarrow> ('w, 'b) io) \<Rightarrow> ('w, 'b) io" where
  "bnd m f s = (case m s of (Returned x, s') \<Rightarrow> f x s' | (Raised e, s') \<Rightarrow> (Raised e, s'))"

definition try_catch :: "('w, 'a) io \<Rightarrow> (json \<Rightarrow> ('w, 'a) io) \<Rightarrow> ('w, 'a) io" where
  "try_catch m h s = (case m s of (Returned x, s') \<Rightarrow> (Returned x, s') | (Raised e, s') \<Rightarrow> h e s')"

definition await :: "'w env \<Rightarrow> request \<Rightarrow> ('w, response) io" where
  "await env q s =
     (case respond env q (world s) of
        (r, w') \<Rightarrow> (r, \<lparr>world = w', trace = trace s @ [q]\<rparr>))"

text \<open>\<open>new Date().toISOString()\<close>\<close>

definition new_date_iso :: "'w env \<Rightarrow> ('w, json) io" where
  "new_date_iso env s = (case now env (world s) of (t, w') \<Rightarrow> (Returned (JStr t), s\<lparr>world := w'\<rparr>))"

text \<open>
  The elements walked by \<open>xs.map(x => ... x.k ...)\<close> and by \<open>for (const x of xs)\<close>: a
  TypeError when \<open>xs\<close> is not an array, or when the callback reads a property of a null
  element.
\<close>

definition type_error :: json where
  "type_error = JStr ''TypeError''"

definition js_rows :: "json \<Rightarrow> ('w, json list) io" where
  "js_rows v =
     (case v of
        JArr xs \<Rightarrow> if JNull \<in> set xs then throw type_error else ret xs
      | _ \<Rightarrow> throw type_error)"

section \<open>The data-access layer\<close>

subsection \<open>The reachability probe\<close>

definition probe :: request where
  "probe = query ''profiles'' [select [''count''], limit_rows 1]"

definition checkSchemaExists :: "'w env \<Rightarrow> ('w, bool) io" where
  "checkSchemaExists env =
     try_catch
       (bnd (await env probe) (\<lambda>res. ret (\<not> js_truthy (error res))))
       (\<lambda>e. ret False)"

subsection \<open>Profiles\<close>

definition getProfile :: "'w env \<Rightarrow> string \<Rightarrow> ('w, json) io" where
  "getProfile env userId =
     try_catch
       (bnd (checkSchemaExists env) (\<lambda>schemaExists.
          if \<not> schemaExists then
            bnd (new_date_iso env) (\<lambda>created. bnd (new_date_iso env) (\<lambda>updated.
              ret (JObj
                [(''id'', JStr userId),
                 (''email'', JStr ''user@example.com''),
                 (''full_name'', JStr ''User''),
                 (''headline'', JStr ''Healthcare Professional''),
                 (''bio'', JStr ''''),
                 (''location'', JStr ''''),
                 (''avatar_url'', JStr ''''),
                 (''banner_url'', JStr ''''),
                 (''website'', JStr ''''),
                 (''phone'', JStr ''''),
                 (''specialization'', JArr [JStr ''General Medicine'']),
                 (''is_premium'', JBool False),
                 (''profile_views'', JNum 0),
                 (''user_type'', JStr ''individual''),
                 (''profile_type'', JStr ''individual''),
                 (''created_at'', created),
                 (''updated_at'', updated)])))
          else
            bnd (await env (query ''profiles''
                   [select [''*''], eq ''id'' (JStr userId), maybeSingle])) (\<lambda>res.
              if js_truthy (error res) then
                if get_prop (error res) ''code'' = JStr ''PGRST116'' then
                  bnd (new_date_iso env) (\<lambda>created. bnd (new_date_iso env) (\<lambda>updated.
                    ret (JObj
                      [(''id'', JStr userId),
                       (''email'', JStr ''user@example.com''),
                       (''full_name'', JStr ''Healthcare Professional''),
                       (''headline'', JStr ''Medical Professional''),
                       (''bio'', JStr ''''),
                       (''location'', JStr ''''),
                       (''avatar_url'', JStr ''''),
                       (''banner_url'', JStr ''''),
                       (''website'', JStr ''''),
                       (''phone'', JStr ''''),
                       (''specialization'', JArr [JStr ''General Medicine'']),
                       (''is_premium'', JBool False),
                       (''profile_views'', JNum 0),
                       (''user_type'', JStr ''individual''),
                       (''profile_type'', JStr ''individual''),
                       (''created_at'', created),
                       (''updated_at'', updated)])))
                else ret JNull
              else ret (data res))))
       (\<lambda>e. ret JNull)"

definition updateProfile :: "'w env \<Rightarrow> string \<Rightarrow> row \<Rightarrow> ('w, json) io" where
  "updateProfile env userId updates =
     try_catch
       (bnd (checkSchemaExists env) (\<lambda>schemaExists.
          if \<not> schemaExists then ret JNull
          else
            bnd (await env (query ''profiles''
                   [update_rows updates, eq ''id'' (JStr userId), select [''*''], single])) (\<lambda>res.
              if js_truthy (error res) then throw (error res)
              else ret (data res))))
       (\<lambda>e. ret JNull)"

definition ensureProfileExists :: "'w env \<Rightarrow> string \<Rightarrow> string \<Rightarrow> string \<Rightarrow> ('w, json) io" where
  "ensureProfileExists env userId email fullName =
     try_catch
       (bnd (checkSchemaExists env) (\<lambda>schemaExists.
          if \<not> schemaExists then
            bnd (new_date_iso env) (\<lambda>created. bnd (new_date_iso env) (\<lambda>updated.
              ret (JObj
                [(''id'', JStr userId),
                 (''email'', JStr email),
                 (''full_name'', JStr fullName),
                 (''headline'', JStr ''Healthcare Professional''),
                 (''bio'', JStr ''''),
                 (''location'', JStr ''''),
                 (''avatar_url'', JStr ''''),
                 (''banner_url'', JStr ''''),
                 (''website'', JStr ''''),
                 (''phone'', JStr ''''),
                 (''specialization'', JArr [JStr ''General Medicine'']),
                 (''is_premium'', JBool False),
                 (''profile_views'', JNum 0),
                 (''user_type'', JStr ''individual''),
                 (''profile_type'', JStr ''individual''),
                 (''created_at'', created),
                 (''updated_at'', updated)])))
          else
            bnd (await env (query ''profiles''
                   [select [''*''], eq ''id'' (JStr userId), single])) (\<lambda>fetched.
              if js_truthy (error fetched) \<and> get_prop (error fetched) ''code'' \<noteq> JStr ''PGRST116''
              then throw (error fetched)
              else if \<not> js_truthy (data fetched) then
                bnd (new_date_iso env) (\<lambda>created. bnd (new_date_iso env) (\<lambda>updated.
                  bnd (await env (query ''profiles''
                         [insert_row
                            [(''id'', JStr userId),
                             (''email'', JStr email),
                             (''full_name'', JStr fullName),
                             (''created_at'', created),
                             (''updated_at'', updated)],
                          select [''*''], single])) (\<lambda>created_res.
                    if js_truthy (error created_res) then throw (error created_res)
                    else ret (data created_res))))
              else ret (data fetched))))
       (\<lambda>e. ret JNull)"

subsection \<open>Posts\<close>

text \<open>The literal \<open>{ id: post.author_id, full_name: 'Unknown User', ... }\<close>.\<close>

definition unknown_author :: "json \<Rightarrow> json" where
  "unknown_author post =
     JObj [(''id'', get_prop post ''author_id''),
           (''full_name'', JStr ''Unknown User''),
           (''avatar_url'', JStr ''''),
           (''headline'', JStr ''''),
           (''email'', JStr '''')]"

text \<open>\<open>{ ...post, author: a }\<close>\<close>

definition with_author :: "json \<Rightarrow> json \<Rightarrow> json" where
  "with_author post a = JObj (set_field ''author'' a (fields_of post))"

definition getPosts :: "'w env \<Rightarrow> int option \<Rightarrow> int option \<Rightarrow> ('w, json) io" where
  "getPosts env page_arg limit_arg =
     (let page = (case page_arg of None \<Rightarrow> 0 | Some p \<Rightarrow> p);
          limit = (case limit_arg of None \<Rightarrow> 10 | Some l \<Rightarrow> l)
      in
      try_catch
       (bnd (checkSchemaExists env) (\<lambda>schemaExists.
          if \<not> schemaExists then ret (JArr [])
          else
            bnd (await env (query ''posts'' [select_count_head [''*'']])) (\<lambda>counted.
              if count counted = Some 0 then ret (JArr [])
              else
                let offset = min (page * limit) (case count counted of None \<Rightarrow> 0 | Some c \<Rightarrow> c)
                in
                bnd (await env (query ''posts''
                       [select [''*''], order_by ''created_at'' False,
                        range_rows offset (offset + limit - 1)])) (\<lambda>fetched.
                  if js_truthy (error fetched) then ret (JArr [])
                  else if \<not> js_truthy (data fetched) \<or> js_length (data fetched) = JNum 0
                  then ret (JArr [])
                  else
                    bnd (js_rows (data fetched)) (\<lambda>posts.
                      let authorIds =
                            js_set_values [] (map (\<lambda>post. get_prop post ''author_id'') posts)
                      in
                      bnd (await env (query ''profiles''
                             [select [''id'', ''full_name'', ''avatar_url'', ''headline'', ''email''],
                              in_list ''id'' authorIds])) (\<lambda>authors_res.
                        if js_truthy (error authors_res) then
                          ret (JArr (map (\<lambda>post. with_author post (unknown_author post)) posts))
                        else
                          bnd (if data authors_res = JNull then ret []
                               else js_rows (data authors_res)) (\<lambda>authors.
                            let authorMap = map (\<lambda>author. (get_prop author ''id'', author)) authors
                            in
                            ret (JArr (map (\<lambda>post.
                                   with_author post
                                     (js_or (js_map_get authorMap (get_prop post ''author_id''))
                                            (unknown_author post)))
                                 posts)))))))))
       (\<lambda>e. ret (JArr [])))"

definition getPostsByAuthor :: "'w env \<Rightarrow> string \<Rightarrow> ('w, json) io" where
  "getPostsByAuthor env authorId =
     try_catch
       (bnd (checkSchemaExists env) (\<lambda>schemaExists.
          if \<not> schemaExists then ret (JArr [])
          else
            bnd (await env (query ''posts''
                   [select [''*''], eq ''author_id'' (JStr authorId),
                    order_by ''created_at'' False])) (\<lambda>fetched.
              if js_truthy (error fetched) then ret (JArr [])
              else if \<not> js_truthy (data fetched) \<or> js_length (data fetched) = JNum 0
              then ret (JArr [])
              else
                bnd (await env (query ''profiles''
                       [select [''id'', ''full_name'', ''avatar_url'', ''headline'', ''email''],
                        eq ''id'' (JStr authorId), single])) (\<lambda>author_res.
                  if js_truthy (error author_res) then
                    bnd (js_rows (data fetched)) (\<lambda>posts.
                      ret (JArr (map (\<lambda>post. with_author post (unknown_author post)) posts)))
                  else
                    bnd (js_rows (data fetched)) (\<lambda>posts.
                      ret (JArr (map (\<lambda>post.
                             with_author post (js_or (data author_res) (unknown_author post)))
                           posts)))))))
       (\<lambda>e. ret (JArr []))"

definition createPost :: "'w env \<Rightarrow> row \<Rightarrow> ('w, json) io" where
  "createPost env post =
     try_catch
       (bnd (checkSchemaExists env) (\<lambda>schemaExists.
          if \<not> schemaExists then ret JNull
          else
            bnd (new_date_iso env) (\<lambda>created. bnd (new_date_iso env) (\<lambda>updated.
              let postData = patch
                    [(''author_type'', JStr ''individual''),
                     (''likes_count'', JNum 0),
                     (''comments_count'', JNum 0),
                     (''shares_count'', JNum 0),
                     (''created_at'', created),
                     (''updated_at'', updated)] post
              in
              bnd (await env (query ''posts''
                     [insert_row postData, select [''*''], single])) (\<lambda>res.
                if js_truthy (error res) then throw (error res)
                else ret (data res))))))
       (\<lambda>e. ret JNull)"

subsection \<open>Connections\<close>

text \<open>The loop that collects the other party of each accepted connection.\<close>

fun connected_profiles :: "string \<Rightarrow> json list \<Rightarrow> json list \<Rightarrow> json list" where
  "connected_profiles userId connections [] = connections"
| "connected_profiles userId connections (connection # rest) =
     (if get_prop connection ''requester_id'' = JStr userId
         \<and> js_truthy (get_prop connection ''recipient'')
      then connected_profiles userId (connections @ [get_prop connection ''recipient'']) rest
      else if get_prop connection ''recipient_id'' = JStr userId
         \<and> js_truthy (get_prop connection ''requester'')
      then connected_profiles userId (connections @ [get_prop connection ''requester'']) rest
      else connected_profiles userId connections rest)"

definition getConnections :: "'w env \<Rightarrow> string \<Rightarrow> ('w, json) io" where
  "getConnections env userId =
     try_catch
       (bnd (checkSchemaExists env) (\<lambda>schemaExists.
          if \<not> schemaExists then ret (JArr [])
          else
            bnd (await env (query ''connections''
                   [select_embed [''requester_id'', ''recipient_id'']
                      [(''requester'', ''profiles'', ''requester_id''),
                       (''recipient'', ''profiles'', ''recipient_id'')],
                    or_filter [[(''requester_id'', JStr userId)], [(''recipient_id'', JStr userId)]],
                    eq ''status'' (JStr ''accepted'')])) (\<lambda>res.
              if js_truthy (error res) then ret (JArr [])
              else if \<not> js_truthy (data res) then ret (JArr [])
              else
                bnd (js_rows (data res)) (\<lambda>rows.
                  ret (JArr (connected_profiles userId [] rows))))))
       (\<lambda>e. ret (JArr []))"

definition getConnectionStatus :: "'w env \<Rightarrow> string \<Rightarrow> string \<Rightarrow> ('w, json) io" where
  "getConnectionStatus env userId targetUserId =
     try_catch
       (bnd (checkSchemaExists env) (\<lambda>schemaExists.
          if \<not> schemaExists then ret JNull
          else
            bnd (await env (query ''connections''
                   [select [''status''],
                    or_filter
                      [[(''requester_id'', JStr userId), (''recipient_id'', JStr targetUserId)],
                       [(''requester_id'', JStr targetUserId), (''recipient_id'', JStr userId)]],
                    single])) (\<lambda>res.
              if js_truthy (error res) \<and> get_prop (error res) ''code'' \<noteq> JStr ''PGRST116''
              then throw (error res)
              else ret (js_or (get_prop (data res) ''status'') JNull))))
       (\<lambda>e. ret JNull)"

definition sendConnectionRequest :: "'w env \<Rightarrow> string \<Rightarrow> string \<Rightarrow> ('w, json) io" where
  "sendConnectionRequest env requesterId recipientId =
     try_catch
       (bnd (checkSchemaExists env) (\<lambda>schemaExists.
          if \<not> schemaExists then ret JNull
          else
            bnd (new_date_iso env) (\<lambda>created.
              bnd (await env (query ''connections''
                     [insert_row
                        [(''requester_id'', JStr requesterId),
                         (''recipient_id'', JStr recipientId),
                         (''status'', JStr ''pending''),
                         (''created_at'', created)],
                      select [''*''], single])) (\<lambda>res.
                if js_truthy (error res) then throw (error res)
                else ret (data res)))))
       (\<lambda>e. ret JNull)"

definition getSuggestedConnections :: "'w env \<Rightarrow> string \<Rightarrow> int option \<Rightarrow> ('w, json) io" where
  "getSuggestedConnections env userId limit_arg =
     (let limit = (case limit_arg of None \<Rightarrow> 10 | Some l \<Rightarrow> l) in
      try_catch
       (bnd (checkSchemaExists env) (\<lambda>schemaExists.
          if \<not> schemaExists then ret (JArr [])
          else
            bnd (await env (query ''profiles''
                   [select [''*''], neq ''id'' (JStr userId), limit_rows limit])) (\<lambda>res.
              if js_truthy (error res) then ret (JArr [])
              else ret (js_or (data res) (JArr [])))))
       (\<lambda>e. ret (JArr [])))"

definition getConnectionRequests :: "'w env \<Rightarrow> string \<Rightarrow> ('w, json) io" where
  "getConnectionRequests env userId =
     try_catch
       (bnd (checkSchemaExists env) (\<lambda>schemaExists.
          if \<not> schemaExists then ret (JArr [])
          else
            bnd (await env (query ''connections''
                   [select_embed [''*'']
                      [(''requester'', ''profiles'', ''requester_id''),
                       (''recipient'', ''profiles'', ''recipient_id'')],
                    eq ''recipient_id'' (JStr userId),
                    eq ''status'' (JStr ''pending''),
                    order_by ''created_at'' False])) (\<lambda>res.
              if js_truthy (error res) then throw (error res)
              else ret (js_or (data res) (JArr [])))))
       (\<lambda>e. ret (JArr []))"

definition acceptConnectionRequest :: "'w env \<Rightarrow> string \<Rightarrow> ('w, json) io" where
  "acceptConnectionRequest env connectionId =
     try_catch
       (bnd (checkSchemaExists env) (\<lambda>schemaExists.
          if \<not> schemaExists then ret (JBool False)
          else
            bnd (new_date_iso env) (\<lambda>updated.
              bnd (await env (query ''connections''
                     [update_rows [(''status'', JStr ''accepted''), (''updated_at'', updated)],
                      eq ''id'' (JStr connectionId)])) (\<lambda>res.
                if js_truthy (error res) then throw (error res)
                else ret (JBool True)))))
       (\<lambda>e. ret (JBool False))"

definition rejectConnectionRequest :: "'w env \<Rightarrow> string \<Rightarrow> ('w, json) io" where
  "rejectConnectionRequest env connectionId =
     try_catch
       (bnd (checkSchemaExists env) (\<lambda>schemaExists.
          if \<not> schemaExists then ret (JBool False)
          else
            bnd (new_date_iso env) (\<lambda>updated.
              bnd (await env (query ''connections''
                     [update_rows [(''status'', JStr ''rejected''), (''updated_at'', updated)],
                      eq ''id'' (JStr connectionId)])) (\<lambda>res.
                if js_truthy (error res) then throw (error res)
                else ret (JBool True)))))
       (\<lambda>e. ret (JBool False))"

subsection \<open>Experience, education, notifications, profile views\<close>

definition getExperiences :: "'w env \<Rightarrow> string \<Rightarrow> ('w, json) io" where
  "getExperiences env profileId =
     try_catch
       (bnd (checkSchemaExists env) (\<lambda>schemaExists.
          if \<not> schemaExists then ret (JArr [])
          else
            bnd (await env (query ''experiences''
                   [select [''*''], eq ''profile_id'' (JStr profileId),
                    order_by ''start_date'' False])) (\<lambda>res.
              if js_truthy (error res) then throw (error res)
              else ret (js_or (data res) (JArr [])))))
       (\<lambda>e. ret (JArr []))"

definition getEducation :: "'w env \<Rightarrow> string \<Rightarrow> ('w, json) io" where
  "getEducation env profileId =
     try_catch
       (bnd (checkSchemaExists env) (\<lambda>schemaExists.
          if \<not> schemaExists then ret (JArr [])
          else
            bnd (await env (query ''education''
                   [select [''*''], eq ''profile_id'' (JStr profileId),
                    order_by ''start_date'' False])) (\<lambda>res.
              if js_truthy (error res) then throw (error res)
              else ret (js_or (data res) (JArr [])))))
       (\<lambda>e. ret (JArr []))"

text \<open>Notifications: the body returns the empty list at once.\<close>

definition getNotifications :: "'w env \<Rightarrow> string \<Rightarrow> ('w, json) io" where
  "getNotifications env userId = try_catch (ret (JArr [])) (\<lambda>e. ret (JArr []))"

text \<open>A function of type \<open>Promise<void>\<close> resolves to \<open>undefined\<close>, here \<open>JNull\<close>.\<close>

definition recordProfileView :: "'w env \<Rightarrow> string \<Rightarrow> string \<Rightarrow> ('w, json) io" where
  "recordProfileView env viewerId profileId =
     try_catch
       (if viewerId = profileId then ret JNull
        else
          bnd (checkSchemaExists env) (\<lambda>schemaExists.
            if \<not> schemaExists then ret JNull
            else
              bnd (new_date_iso env) (\<lambda>viewed.
                bnd (await env (query ''profile_views''
                       [upsert_row
                          [(''viewer_id'', JStr viewerId),
                           (''profile_id'', JStr profileId),
                           (''viewed_at'', viewed)]])) (\<lambda>res.
                  ret JNull))))
       (\<lambda>e. ret JNull)"

subsection \<open>Comments and likes\<close>

definition createComment :: "'w env \<Rightarrow> row \<Rightarrow> ('w, json) io" where
  "createComment env comment =
     try_catch
       (bnd (checkSchemaExists env) (\<lambda>schemaExists.
          if \<not> schemaExists then ret JNull
          else
            bnd (new_date_iso env) (\<lambda>created.
              bnd (await env (query ''post_comments''
                     [insert_row (patch [(''created_at'', created)] comment),
                      select [''*''], single])) (\<lambda>res.
                if js_truthy (error res) then throw (error res)
                else ret (data res)))))
       (\<lambda>e. ret JNull)"

definition getPostComments :: "'w env \<Rightarrow> string \<Rightarrow> ('w, json) io" where
  "getPostComments env postId =
     try_catch
       (bnd (checkSchemaExists env) (\<lambda>schemaExists.
          if \<not> schemaExists then ret (JArr [])
          else
            bnd (await env (query ''post_comments''
                   [select_embed [''*''] [(''author'', ''profiles'', ''author_id'')],
                    eq ''post_id'' (JStr postId),
                    order_by ''created_at'' True])) (\<lambda>res.
              if js_truthy (error res) then throw (error res)
              else ret (js_or (data res) (JArr [])))))
       (\<lambda>e. ret (JArr []))"

definition likePost :: "'w env \<Rightarrow> string \<Rightarrow> string \<Rightarrow> ('w, json) io" where
  "likePost env postId userId =
     try_catch
       (bnd (checkSchemaExists env) (\<lambda>schemaExists.
          if \<not> schemaExists then ret (JBool False)
          else
            bnd (new_date_iso env) (\<lambda>created.
              bnd (await env (query ''post_likes''
                     [insert_row
                        [(''post_id'', JStr postId),
                         (''user_id'', JStr userId),
                         (''created_at'', created)]])) (\<lambda>res.
                if js_truthy (error res) then throw (error res)
                else
                  bnd (await env (rpc ''increment_likes_count'' [(''post_id'', JStr postId)]))
                    (\<lambda>incremented. ret (JBool True))))))
       (\<lambda>e. ret (JBool False))"

definition unlikePost :: "'w env \<Rightarrow> string \<Rightarrow> string \<Rightarrow> ('w, json) io" where
  "unlikePost env postId userId =
     try_catch
       (bnd (checkSchemaExists env) (\<lambda>schemaExists.
          if \<not> schemaExists then ret (JBool False)
          else
            bnd (await env (query ''post_likes''
                   [delete_rows, eq ''post_id'' (JStr postId), eq ''user_id'' (JStr userId)]))
              (\<lambda>res.
                if js_truthy (error res) then throw (error res)
                else
                  bnd (await env (rpc ''decrement_likes_count'' [(''post_id'', JStr postId)]))
                    (\<lambda>decremented. ret (JBool True)))))
       (\<lambda>e. ret (JBool False))"

definition isPostLiked :: "'w env \<Rightarrow> string \<Rightarrow> string \<Rightarrow> ('w, json) io" where
  "isPostLiked env postId userId =
     try_catch
       (bnd (checkSchemaExists env) (\<lambda>schemaExists.
          if \<not> schemaExists then ret (JBool False)
          else
            bnd (await env (query ''post_likes''
                   [select [''id''], eq ''post_id'' (JStr postId), eq ''user_id'' (JStr userId),
                    single])) (\<lambda>res.
              if js_truthy (error res) \<and> get_prop (error res) ''code'' \<noteq> JStr ''PGRST116''
              then throw (error res)
              else ret (JBool (js_truthy (data res))))))
       (\<lambda>e. ret (JBool False))"

subsection \<open>Institutions, jobs, events\<close>

text \<open>
  The six operations below insert \<open>{ ...given, created_at, updated_at }\<close> or list a table;
  \<open>stamped\<close> is the row they insert.
\<close>

definition createInstitution :: "'w env \<Rightarrow> row \<Rightarrow> ('w, json) io" where
  "createInstitution env institution =
     try_catch
       (bnd (checkSchemaExists env) (\<lambda>schemaExists.
          if \<not> schemaExists then ret JNull
          else
            bnd (new_date_iso env) (\<lambda>created. bnd (new_date_iso env) (\<lambda>updated.
              let stamped = patch [(''created_at'', created), (''updated_at'', updated)] institution
              in
              bnd (await env (query ''institutions''
                     [insert_row stamped, select [''*''], single])) (\<lambda>res.
                if js_truthy (error res) then throw (error res)
                else ret (data res))))))
       (\<lambda>e. ret JNull)"

definition getInstitutions :: "'w env \<Rightarrow> ('w, json) io" where
  "getInstitutions env =
     try_catch
       (bnd (checkSchemaExists env) (\<lambda>schemaExists.
          if \<not> schemaExists then ret (JArr [])
          else
            bnd (await env (query ''institutions''
                   [select [''*''], order_by ''created_at'' False])) (\<lambda>res.
              if js_truthy (error res) then throw (error res)
              else ret (js_or (data res) (JArr [])))))
       (\<lambda>e. ret (JArr []))"

definition createJob :: "'w env \<Rightarrow> row \<Rightarrow> ('w, json) io" where
  "createJob env job =
     try_catch
       (bnd (checkSchemaExists env) (\<lambda>schemaExists.
          if \<not> schemaExists then ret JNull
          else
            bnd (new_date_iso env) (\<lambda>created. bnd (new_date_iso env) (\<lambda>updated.
              let stamped = patch [(''created_at'', created), (''updated_at'', updated)] job
              in
              bnd (await env (query ''jobs''
                     [insert_row stamped, select [''*''], single])) (\<lambda>res.
                if js_truthy (error res) then throw (error res)
                else ret (data res))))))
       (\<lambda>e. ret JNull)"

definition getJobs :: "'w env \<Rightarrow> ('w, json) io" where
  "getJobs env =
     try_catch
       (bnd (checkSchemaExists env) (\<lambda>schemaExists.
          if \<not> schemaExists then ret (JArr [])
          else
            bnd (await env (query ''jobs''
                   [select_embed [''*'']
                      [(''company'', ''institutions'', ''company_id''),
                       (''posted_by_user'', ''profiles'', ''posted_by'')],
                    order_by ''created_at'' False])) (\<lambda>res.
              if js_truthy (error res) then throw (error res)
              else ret (js_or (data res) (JArr [])))))
       (\<lambda>e. ret (JArr []))"

definition applyToJob :: "'w env \<Rightarrow> row \<Rightarrow> ('w, json) io" where
  "applyToJob env application =
     try_catch
       (bnd (checkSchemaExists env) (\<lambda>schemaExists.
          if \<not> schemaExists then ret JNull
          else
            bnd (new_date_iso env) (\<lambda>created. bnd (new_date_iso env) (\<lambda>updated.
              let stamped = patch [(''created_at'', created), (''updated_at'', updated)] application
              in
              bnd (await env (query ''job_applications''
                     [insert_row stamped, select [''*''], single])) (\<lambda>res.
                if js_truthy (error res) then throw (error res)
                else ret (data res))))))
       (\<lambda>e. ret JNull)"

definition createEvent :: "'w env \<Rightarrow> row \<Rightarrow> ('w, json) io" where
  "createEvent env event =
     try_catch
       (bnd (checkSchemaExists env) (\<lambda>schemaExists.
          if \<not> schemaExists then ret JNull
          else
            bnd (new_date_iso env) (\<lambda>created. bnd (new_date_iso env) (\<lambda>updated.
              let stamped = patch [(''created_at'', created), (''updated_at'', updated)] event
              in
              bnd (await env (query ''events''
                     [insert_row stamped, select [''*''], single])) (\<lambda>res.
                if js_truthy (error res) then throw (error res)
                else ret (data res))))))
       (\<lambda>e. ret JNull)"

definition getEvents :: "'w env \<Rightarrow> ('w, json) io" where
  "getEvents env =
     try_catch
       (bnd (checkSchemaExists env) (\<lambda>schemaExists.
          if \<not> schemaExists then ret (JArr [])
          else
            bnd (await env (query ''events''
                   [select_embed [''*''] [(''organizer'', ''profiles'', ''organizer_id'')],
                    order_by ''start_date'' True])) (\<lambda>res.
              if js_truthy (error res) then throw (error res)
              else ret (js_or (data res) (JArr [])))))
       (\<lambda>e. ret (JArr []))"

definition registerForEvent :: "'w env \<Rightarrow> row \<Rightarrow> ('w, json) io" where
  "registerForEvent env registration =
     try_catch
       (bnd (checkSchemaExists env) (\<lambda>schemaExists.
          if \<not> schemaExists then ret JNull
          else
            bnd (new_date_iso env) (\<lambda>created.
              bnd (await env (query ''event_attendees''
                     [insert_row (patch [(''created_at'', created)] registration),
                      select [''*''], single])) (\<lambda>res.
                if js_truthy (error res) then throw (error res)
                else ret (data res)))))
       (\<lambda>e. ret JNull)"

subsection \<open>Follows\<close>

datatype profile_type = Individual | Student | Institution

fun type_name :: "profile_type \<Rightarrow> string" where
  "type_name Individual = ''individual''"
| "type_name Student = ''student''"
| "type_name Institution = ''institution''"

definition followUser ::
  "'w env \<Rightarrow> string \<Rightarrow> string \<Rightarrow> profile_type \<Rightarrow> profile_type \<Rightarrow> ('w, json) io" where
  "followUser env followerId followingId followerType followingType =
     try_catch
       (bnd (checkSchemaExists env) (\<lambda>schemaExists.
          if \<not> schemaExists then ret JNull
          else
            bnd (new_date_iso env) (\<lambda>created.
              bnd (await env (query ''follows''
                     [insert_row
                        [(''follower_id'', JStr followerId),
                         (''following_id'', JStr followingId),
                         (''follower_type'', JStr (type_name followerType)),
                         (''following_type'', JStr (type_name followingType)),
                         (''created_at'', created)],
                      select [''*''], single])) (\<lambda>res.
                if js_truthy (error res) then throw (error res)
                else ret (data res)))))
       (\<lambda>e. ret JNull)"

definition unfollowUser :: "'w env \<Rightarrow> string \<Rightarrow> string \<Rightarrow> ('w, json) io" where
  "unfollowUser env followerId followingId =
     try_catch
       (bnd (checkSchemaExists env) (\<lambda>schemaExists.
          if \<not> schemaExists then ret (JBool False)
          else
            bnd (await env (query ''follows''
                   [delete_rows, eq ''follower_id'' (JStr followerId),
                    eq ''following_id'' (JStr followingId)])) (\<lambda>res.
              if js_truthy (error res) then throw (error res)
              else ret (JBool True))))
       (\<lambda>e. ret (JBool False))"

definition isFollowing :: "'w env \<Rightarrow> string \<Rightarrow> string \<Rightarrow> ('w, json) io" where
  "isFollowing env followerId followingId =
     try_catch
       (bnd (checkSchemaExists env) (\<lambda>schemaExists.
          if \<not> schemaExists then ret (JBool False)
          else
            bnd (await env (query ''follows''
                   [select [''id''], eq ''follower_id'' (JStr followerId),
                    eq ''following_id'' (JStr followingId), single])) (\<lambda>res.
              if js_truthy (error res) \<and> get_prop (error res) ''code'' \<noteq> JStr ''PGRST116''
              then throw (error res)
              else ret (JBool (js_truthy (data res))))))
       (\<lambda>e. ret (JBool False))"

definition getFollowers :: "'w env \<Rightarrow> string \<Rightarrow> ('w, json) io" where
  "getFollowers env userId =
     try_catch
       (bnd (checkSchemaExists env) (\<lambda>schemaExists.
          if \<not> schemaExists then ret (JArr [])
          else
            bnd (await env (query ''follows''
                   [select_embed [''*''] [(''follower'', ''profiles'', ''follower_id'')],
                    eq ''following_id'' (JStr userId),
                    order_by ''created_at'' False])) (\<lambda>res.
              if js_truthy (error res) then throw (error res)
              else ret (js_or (data res) (JArr [])))))
       (\<lambda>e. ret (JArr []))"

definition getFollowing :: "'w env \<Rightarrow> string \<Rightarrow> ('w, json) io" where
  "getFollowing env userId =
     try_catch
       (bnd (checkSchemaExists env) (\<lambda>schemaExists.
          if \<not> schemaExists then ret (JArr [])
          else
            bnd (await env (query ''follows''
                   [select_embed [''*''] [(''following'', ''profiles'', ''following_id'')],
                    eq ''follower_id'' (JStr userId),
                    order_by ''created_at'' False])) (\<lambda>res.
              if js_truthy (error res) then throw (error res)
              else ret (js_or (data res) (JArr [])))))
       (\<lambda>e. ret (JArr []))"

definition getSuggestedInstitutions :: "'w env \<Rightarrow> string \<Rightarrow> int option \<Rightarrow> ('w, json) io" where
  "getSuggestedInstitutions env userId limit_arg =
     (let limit = (case limit_arg of None \<Rightarrow> 10 | Some l \<Rightarrow> l) in
      try_catch
       (bnd (checkSchemaExists env) (\<lambda>schemaExists.
          if \<not> schemaExists then ret (JArr [])
          else
            bnd (await env (query ''follows''
                   [select [''following_id''], eq ''follower_id'' (JStr userId)])) (\<lambda>followed.
              bnd (if data followed = JNull then ret []
                   else js_rows (data followed)) (\<lambda>following.
                let followingIds = map (\<lambda>f. get_prop f ''following_id'') following;
                    base = [select [''*''], eq ''profile_type'' (JStr ''institution''),
                            limit_rows limit];
                    steps = (if length followingIds > 0 then base @ [not_in ''id'' followingIds]
                             else base)
                in
                bnd (await env (query ''profiles'' steps)) (\<lambda>res.
                  if js_truthy (error res) then throw (error res)
                  else ret (js_or (data res) (JArr [])))))))
       (\<lambda>e. ret (JArr [])))"

section \<open>The exported interface\<close>

text \<open>One constructor for each exported function of the module, with its arguments.\<close>

datatype call =
    GetProfile string
  | UpdateProfile string row
  | EnsureProfileExists string string string
  | GetPosts "int option" "int option"
  | GetPostsByAuthor string
  | CreatePost row
  | GetConnections string
  | GetConnectionStatus string string
  | SendConnectionRequest string string
  | GetSuggestedConnections string "int option"
  | GetConnectionRequests string
  | AcceptConnectionRequest string
  | RejectConnectionRequest string
  | GetExperiences string
  | GetEducation string
  | GetNotifications string
  | RecordProfileView string string
  | CreateComment row
  | GetPostComments string
  | LikePost string string
  | UnlikePost string string
  | IsPostLiked string string
  | CreateInstitution row
  | GetInstitutions
  | CreateJob row
  | GetJobs
  | ApplyToJob row
  | CreateEvent row
  | GetEvents
  | RegisterForEvent row
  | FollowUser string string profile_type profile_type
  | UnfollowUser string string
  | IsFollowing string string
  | GetFollowers string
  | GetFollowing string
  | GetSuggestedInstitutions string "int option"

fun invoke :: "'w env \<Rightarrow> call \<Rightarrow> ('w, json) io" where
  "invoke env (GetProfile u) = getProfile env u"
| "invoke env (UpdateProfile u r) = updateProfile env u r"
| "invoke env (EnsureProfileExists u e n) = ensureProfileExists env u e n"
| "invoke env (GetPosts p l) = getPosts env p l"
| "invoke env (GetPostsByAuthor a) = getPostsByAuthor env a"
| "invoke env (CreatePost r) = createPost env r"
| "invoke env (GetConnections u) = getConnections env u"
| "invoke env (GetConnectionStatus u t) = getConnectionStatus env u t"
| "invoke env (SendConnectionRequest u t) = sendConnectionRequest env u t"
| "invoke env (GetSuggestedConnections u l) = getSuggestedConnections env u l"
| "invoke env (GetConnectionRequests u) = getConnectionRequests env u"
| "invoke env (AcceptConnectionRequest c) = acceptConnectionRequest env c"
| "invoke env (RejectConnectionRequest c) = rejectConnectionRequest env c"
| "invoke env (GetExperiences p) = getExperiences env p"
| "invoke env (GetEducation p) = getEducation env p"
| "invoke env (GetNotifications u) = getNotifications env u"
| "invoke env (RecordProfileView v p) = recordProfileView env v p"
| "invoke env (CreateComment r) = createComment env r"
| "invoke env (GetPostComments p) = getPostComments env p"
| "invoke env (LikePost p u) = likePost env p u"
| "invoke env (UnlikePost p u) = unlikePost env p u"
| "invoke env (IsPostLiked p u) = isPostLiked env p u"
| "invoke env (CreateInstitution r) = createInstitution env r"
| "invoke env GetInstitutions = getInstitutions env"
| "invoke env (CreateJob r) = createJob env r"
| "invoke env GetJobs = getJobs env"
| "invoke env (ApplyToJob r) = applyToJob env r"
| "invoke env (CreateEvent r) = createEvent env r"
| "invoke env GetEvents = getEvents env"
| "invoke env (RegisterForEvent r) = registerForEvent env r"
| "invoke env (FollowUser a b s t) = followUser env a b s t"
| "invoke env (UnfollowUser a b) = unfollowUser env a b"
| "invoke env (IsFollowing a b) = isFollowing env a b"
| "invoke env (GetFollowers u) = getFollowers env u"
| "invoke env (GetFollowing u) = getFollowing env u"
| "invoke env (GetSuggestedInstitutions u l) = getSuggestedInstitutions env u l"

text \<open>The probe fails when the awaited call throws, or when its response carries an error.\<close>

definition probe_fails :: "'w env \<Rightarrow> 'w \<Rightarrow> bool" where
  "probe_fails env w =
     (case fst (respond env probe w) of
        Raised e \<Rightarrow> True
      | Returned res \<Rightarrow> js_truthy (error res))"

section \<open>A store that behaves as the hosted table service does\<close>

text \<open>
  For the properties that depend on what the store answers (filters, ordering, windows,
  single-row reads, inserts), the environment is instantiated by a store of tables with the
  semantics of the hosted service: a filter compares a column with a value, with SQL's
  treatment of null; \<open>order\<close> sorts on a column, null last when ascending and first when
  descending; \<open>range(a, b)\<close> is offset \<open>a\<close>, limit \<open>b - a + 1\<close>; \<open>single\<close> answers the error
  \<open>PGRST116\<close> unless exactly one row is selected; \<open>maybeSingle\<close> answers null data and no
  error for no row, and \<open>PGRST116\<close> for several. Each call first consumes one entry of a
  fault schedule, which can make it answer an error or throw. Constraints and column
  defaults of the schema are not part of the model.
\<close>

datatype fault = Healthy | Fails string | Throws

record store =
  tables :: "string \<Rightarrow> row list"
  faults :: "fault list"
  clock :: "string list"

definition col :: "row \<Rightarrow> string \<Rightarrow> json" where
  "col r c = get_prop (JObj r) c"

definition sql_eq :: "json \<Rightarrow> json \<Rightarrow> bool" where
  "sql_eq a b = (a \<noteq> JNull \<and> b \<noteq> JNull \<and> a = b)"

fun holds :: "row \<Rightarrow> filter \<Rightarrow> bool" where
  "holds r (Eq c v) = sql_eq (col r c) v"
| "holds r (Neq c v) = (col r c \<noteq> JNull \<and> v \<noteq> JNull \<and> col r c \<noteq> v)"
| "holds r (In_list c vs) = list_ex (sql_eq (col r c)) vs"
| "holds r (Not_in c vs) = (col r c \<noteq> JNull \<and> \<not> list_ex (sql_eq (col r c)) vs)"
| "holds r (Or_of_ands cs) = list_ex (list_all (\<lambda>(c, v). sql_eq (col r c) v)) cs"

definition matching :: "request \<Rightarrow> row list \<Rightarrow> row list" where
  "matching q rows = filter (\<lambda>r. list_all (holds r) (filters q)) rows"

text \<open>The sort key of a column value: values of one type by their order, null above all.\<close>

fun sort_rank :: "json \<Rightarrow> nat \<times> int \<times> string" where
  "sort_rank (JBool b) = (0, (if b then 1 else 0), [])"
| "sort_rank (JNum n) = (1, n, [])"
| "sort_rank (JStr s) = (2, 0, s)"
| "sort_rank (JArr xs) = (3, 0, [])"
| "sort_rank (JObj kvs) = (3, 0, [])"
| "sort_rank JNull = (4, 0, [])"

definition ordered :: "request \<Rightarrow> row list \<Rightarrow> row list" where
  "ordered q rows =
     (case ordering q of
        None \<Rightarrow> rows
      | Some (c, ascending) \<Rightarrow>
          if ascending then sort_key (\<lambda>r. sort_rank (col r c)) rows
          else rev (sort_key (\<lambda>r. sort_rank (col r c)) rows))"

definition bad_window :: "request \<Rightarrow> bool" where
  "bad_window q =
     (case row_range q of
        Some (a, b) \<Rightarrow> a < 0 \<or> b - a + 1 < 0
      | None \<Rightarrow> (case row_limit q of Some n \<Rightarrow> n < 0 | None \<Rightarrow> False))"

definition window :: "request \<Rightarrow> row list \<Rightarrow> row list" where
  "window q rows =
     (case row_range q of
        Some (a, b) \<Rightarrow> take (nat (b - a + 1)) (drop (nat a) rows)
      | None \<Rightarrow> (case row_limit q of Some n \<Rightarrow> take (nat n) rows | None \<Rightarrow> rows))"

definition embed_row :: "(string \<Rightarrow> row list) \<Rightarrow> embed \<Rightarrow> row \<Rightarrow> row" where
  "embed_row tabs e r =
     (case e of (alias, tbl, fk) \<Rightarrow>
        set_field alias
          (case filter (\<lambda>r'. sql_eq (col r' ''id'') (col r fk)) (tabs tbl) of
             [] \<Rightarrow> JNull
           | r' # rest \<Rightarrow> JObj r')
          r)"

definition project :: "(string \<Rightarrow> row list) \<Rightarrow> request \<Rightarrow> row \<Rightarrow> row" where
  "project tabs q r =
     fold (embed_row tabs) (embeds q)
       (if columns q = [''*''] \<or> columns q = [] then r
        else map (\<lambda>c. (c, col r c)) (columns q))"

definition pg_error :: "string \<Rightarrow> json" where
  "pg_error code = JObj [(''code'', JStr code)]"

definition reply :: "json \<Rightarrow> response" where
  "reply d = \<lparr>data = d, error = JNull, count = None\<rparr>"

definition failure :: "string \<Rightarrow> response" where
  "failure code = \<lparr>data = JNull, error = pg_error code, count = None\<rparr>"

definition shape :: "request \<Rightarrow> row list \<Rightarrow> response" where
  "shape q rows =
     (case cardinality q of
        Many \<Rightarrow> reply (JArr (map JObj rows))
      | Single \<Rightarrow> (case rows of [r] \<Rightarrow> reply (JObj r) | _ \<Rightarrow> failure ''PGRST116'')
      | MaybeSingle \<Rightarrow>
          (case rows of
             [] \<Rightarrow> reply JNull
           | [r] \<Rightarrow> reply (JObj r)
           | _ \<Rightarrow> failure ''PGRST116''))"

definition read_rows :: "(string \<Rightarrow> row list) \<Rightarrow> request \<Rightarrow> response" where
  "read_rows tabs q =
     (let rows = matching q (tabs (target q)) in
      if count_head q then \<lparr>data = JNull, error = JNull, count = Some (int (length rows))\<rparr>
      else if bad_window q then failure ''2201W''
      else if columns q = [''count'']
        then shape q (window q [[(''count'', JNum (int (length rows)))]])
      else shape q (map (project tabs q) (window q (ordered q rows))))"

definition written :: "(string \<Rightarrow> row list) \<Rightarrow> request \<Rightarrow> row list \<Rightarrow> response" where
  "written tabs q rows =
     (if returning q then shape q (map (project tabs q) rows) else reply JNull)"

text \<open>
  Modelled from the spec: the two counter-adjustment remote procedures
  (\<open>increment_likes_count\<close>, \<open>decrement_likes_count\<close>) live in the store, not in this
  repository; they add or subtract one on the post's \<open>likes_count\<close>.
\<close>

definition adjust_likes :: "int \<Rightarrow> json \<Rightarrow> row \<Rightarrow> row" where
  "adjust_likes d post_id r =
     (if sql_eq (col r ''id'') post_id
      then (case col r ''likes_count'' of
              JNum n \<Rightarrow> set_field ''likes_count'' (JNum (n + d)) r
            | _ \<Rightarrow> r)
      else r)"

definition execute :: "request \<Rightarrow> (string \<Rightarrow> row list) \<Rightarrow> response \<times> (string \<Rightarrow> row list)" where
  "execute q tabs =
     (case verb q of
        Select \<Rightarrow> (read_rows tabs q, tabs)
      | Insert r \<Rightarrow>
          (let tabs' = tabs(target q := tabs (target q) @ [r]) in (written tabs' q [r], tabs'))
      | Update changes \<Rightarrow>
          (let hit = (\<lambda>r. list_all (holds r) (filters q));
               tabs' = tabs(target q :=
                         map (\<lambda>r. if hit r then patch changes r else r) (tabs (target q)))
           in (written tabs' q (map (patch changes) (matching q (tabs (target q)))), tabs'))
      | Upsert r \<Rightarrow>
          (let same = (\<lambda>r'. sql_eq (col r' ''id'') (col r ''id''));
               tabs' = tabs(target q := filter (\<lambda>r'. \<not> same r') (tabs (target q)) @ [r])
           in (written tabs' q [r], tabs'))
      | Delete \<Rightarrow>
          (let gone = matching q (tabs (target q));
               tabs' = tabs(target q :=
                         filter (\<lambda>r. \<not> list_all (holds r) (filters q)) (tabs (target q)))
           in (written tabs' q gone, tabs'))
      | Rpc args \<Rightarrow>
          (if target q = ''increment_likes_count''
           then (reply JNull,
                 tabs(''posts'' := map (adjust_likes 1 (col args ''post_id'')) (tabs ''posts'')))
           else if target q = ''decrement_likes_count''
           then (reply JNull,
                 tabs(''posts'' := map (adjust_likes (- 1) (col args ''post_id'')) (tabs ''posts'')))
           else (failure ''PGRST202'', tabs)))"

text \<open>The fault of the next call; an exhausted schedule is healthy.\<close>

definition next_fault :: "fault list \<Rightarrow> fault" where
  "next_fault fs = (case fs of [] \<Rightarrow> Healthy | f # rest \<Rightarrow> f)"

definition store_respond :: "request \<Rightarrow> store \<Rightarrow> response outcome \<times> store" where
  "store_respond q w =
     (case next_fault (faults w) of
        Throws \<Rightarrow> (Raised (JStr ''fetch failed''), w\<lparr>faults := tl (faults w)\<rparr>)
      | Fails code \<Rightarrow> (Returned (failure code), w\<lparr>faults := tl (faults w)\<rparr>)
      | Healthy \<Rightarrow>
          (case execute q (tables w) of
             (res, tabs') \<Rightarrow> (Returned res, w\<lparr>tables := tabs', faults := tl (faults w)\<rparr>)))"

definition store_now :: "store \<Rightarrow> string \<times> store" where
  "store_now w = (case clock w of [] \<Rightarrow> ([], w) | t # ts \<Rightarrow> (t, w\<lparr>clock := ts\<rparr>))"

definition store_env :: "store env" where
  "store_env = \<lparr>respond = store_respond, now = store_now\<rparr>"

text \<open>A run starts with an empty trace.\<close>

definition start :: "'w \<Rightarrow> 'w run_state" where
  "start w = \<lparr>world = w, trace = []\<rparr>"

definition result :: "'a outcome \<times> 'w run_state \<Rightarrow> 'a outcome" where
  "result r = fst r"

definition final_world :: "'a outcome \<times> 'w run_state \<Rightarrow> 'w" where
  "final_world r = world (snd r)"

definition requests :: "'a outcome \<times> 'w run_state \<Rightarrow> request list" where
  "requests r = trace (snd r)"

section \<open>What the specification promises on the unreachable path\<close>

text \<open>
  The type-appropriate default of each operation when the probe fails: the empty list for
  the operations that return collections, the synthesized placeholder for the two profile
  lookups (its two timestamps are whatever the clock read), \<open>false\<close> for the boolean
  operations, and null (or nothing, for \<open>recordProfileView\<close>) for the others.
\<close>

fun profile_placeholder :: "string \<Rightarrow> string \<Rightarrow> string \<Rightarrow> json \<Rightarrow> bool" where
  "profile_placeholder userId email fullName v =
     (v = JObj
        [(''id'', JStr userId),
         (''email'', JStr email),
         (''full_name'', JStr fullName),
         (''headline'', JStr ''Healthcare Professional''),
         (''bio'', JStr ''''),
         (''location'', JStr ''''),
         (''avatar_url'', JStr ''''),
         (''banner_url'', JStr ''''),
         (''website'', JStr ''''),
         (''phone'', JStr ''''),
         (''specialization'', JArr [JStr ''General Medicine'']),
         (''is_premium'', JBool False),
         (''profile_views'', JNum 0),
         (''user_type'', JStr ''individual''),
         (''profile_type'', JStr ''individual''),
         (''created_at'', get_prop v ''created_at''),
         (''updated_at'', get_prop v ''updated_at'')])"

fun unreachable_default :: "call \<Rightarrow> json \<Rightarrow> bool" where
  "unreachable_default (GetProfile u) v = profile_placeholder u ''user@example.com'' ''User'' v"
| "unreachable_default (EnsureProfileExists u e n) v = profile_placeholder u e n v"
| "unreachable_default (GetPosts p l) v = (v = JArr [])"
| "unreachable_default (GetPostsByAuthor a) v = (v = JArr [])"
| "unreachable_default (GetConnections u) v = (v = JArr [])"
| "unreachable_default (GetSuggestedConnections u l) v = (v = JArr [])"
| "unreachable_default (GetConnectionRequests u) v = (v = JArr [])"
| "unreachable_default (GetExperiences p) v = (v = JArr [])"
| "unreachable_default (GetEducation p) v = (v = JArr [])"
| "unreachable_default (GetNotifications u) v = (v = JArr [])"
| "unreachable_default (GetPostComments p) v = (v = JArr [])"
| "unreachable_default GetInstitutions v = (v = JArr [])"
| "unreachable_default GetJobs v = (v = JArr [])"
| "unreachable_default GetEvents v = (v = JArr [])"
| "unreachable_default (GetFollowers u) v = (v = JArr [])"
| "unreachable_default (GetFollowing u) v = (v = JArr [])"
| "unreachable_default (GetSuggestedInstitutions u l) v = (v = JArr [])"
| "unreachable_default (AcceptConnectionRequest c) v = (v = JBool False)"
| "unreachable_default (RejectConnectionRequest c) v = (v = JBool False)"
| "unreachable_default (LikePost p u) v = (v = JBool False)"
| "unreachable_default (UnlikePost p u) v = (v = JBool False)"
| "unreachable_default (IsPostLiked p u) v = (v = JBool False)"
| "unreachable_default (UnfollowUser a b) v = (v = JBool False)"
| "unreachable_default (IsFollowing a b) v = (v = JBool False)"
| "unreachable_default c v = (v = JNull)"

section \<open>Notions of the properties\<close>

text \<open>The elements of a returned list (none when the result is not a list).\<close>

fun returned_rows :: "json outcome \<Rightarrow> json list" where
  "returned_rows (Returned (JArr xs)) = xs"
| "returned_rows r = []"


text \<open>
  The posts of an author, as the store orders them for
  \<open>order('created_at', { ascending: false })\<close>.
\<close>

definition author_posts :: "(string \<Rightarrow> row list) \<Rightarrow> string \<Rightarrow> row list" where
  "author_posts tabs a =
     rev (sort_key (\<lambda>r. sort_rank (col r ''created_at''))
            (filter (\<lambda>r. sql_eq (col r ''author_id'') (JStr a)) (tabs ''posts'')))"

text \<open>The five columns selected of an author row.\<close>

definition author_summary :: "row \<Rightarrow> json" where
  "author_summary r =
     JObj (map (\<lambda>c. (c, col r c)) [''id'', ''full_name'', ''avatar_url'', ''headline'', ''email''])"

text \<open>Descending order of \<open>created_at\<close>, ties allowed, and without ties.\<close>

definition newest_first :: "json list \<Rightarrow> bool" where
  "newest_first posts =
     sorted_wrt (\<lambda>p q. sort_rank (get_prop q ''created_at'') \<le> sort_rank (get_prop p ''created_at''))
       posts"

definition strictly_newest_first :: "json list \<Rightarrow> bool" where
  "strictly_newest_first posts =
     sorted_wrt (\<lambda>p q. sort_rank (get_prop q ''created_at'') < sort_rank (get_prop p ''created_at''))
       posts"

text \<open>A post carries an author; a post carries the placeholder author.\<close>

definition has_author :: "json \<Rightarrow> bool" where
  "has_author p = (get_prop p ''author'' \<noteq> JNull)"

definition has_unknown_author :: "json \<Rightarrow> bool" where
  "has_unknown_author p =
     (get_prop p ''author'' =
        JObj [(''id'', get_prop p ''author_id''),
              (''full_name'', JStr ''Unknown User''),
              (''avatar_url'', JStr ''''),
              (''headline'', JStr ''''),
              (''email'', JStr '''')])"

text \<open>The profile rows stored under an identifier.\<close>

definition profile_rows :: "store \<Rightarrow> string \<Rightarrow> row list" where
  "profile_rows w userId =
     filter (\<lambda>r. sql_eq (col r ''id'') (JStr userId)) (tables w ''profiles'')"

text \<open>The state after a remote call: its fault entry is consumed, the request recorded.\<close>

definition spent :: "store run_state \<Rightarrow> request \<Rightarrow> store run_state" where
  "spent s q = \<lparr>world = (world s)\<lparr>faults := tl (faults (world s))\<rparr>, trace = trace s @ [q]\<rparr>"

text \<open>What a read answers under the next fault of the schedule.\<close>

definition answer :: "fault list \<Rightarrow> response \<Rightarrow> response outcome" where
  "answer fs res =
     (case next_fault fs of
        Throws \<Rightarrow> Raised (JStr ''fetch failed'')
      | Fails code \<Rightarrow> Returned (failure code)
      | Healthy \<Rightarrow> Returned res)"

section \<open>Concrete stores\<close>

text \<open>The tables of an empty database.\<close>

definition no_rows :: "string \<Rightarrow> row list" where
  "no_rows t = []"

text \<open>A store whose first call answers an error.\<close>

definition down :: store where
  "down = \<lparr>tables = no_rows, faults = [Fails ''42P01''],
            clock = [''2024-05-01T10:00:00.000Z'', ''2024-05-01T10:00:00.001Z'']\<rparr>"

text \<open>A healthy and empty store.\<close>

definition empty_store :: store where
  "empty_store = \<lparr>tables = no_rows, faults = [],
                   clock = [''2024-05-01T10:00:00.000Z'', ''2024-05-01T10:00:00.001Z'']\<rparr>"



text \<open>One profile, of an institution, which follows nobody.\<close>

definition lone_institution :: store where
  "lone_institution = \<lparr>tables = no_rows(''profiles'' :=
        [[(''id'', JStr ''inst1''), (''full_name'', JStr ''City Hospital''),
          (''profile_type'', JStr ''institution'')]]),
      faults = [], clock = []\<rparr>"

text \<open>One stored profile, of another user.\<close>

definition two_profiles :: store where
  "two_profiles = \<lparr>tables = no_rows(''profiles'' :=
        [[(''id'', JStr ''u2''), (''email'', JStr ''b@example.com''), (''full_name'', JStr ''Bea'')]]),
      faults = [], clock = [''2024-05-01T10:00:00.000Z'', ''2024-05-01T10:00:00.001Z'']\<rparr>"

text \<open>Three posts of author \<open>a1\<close> at increasing instants; no profile is stored.\<close>

definition orphan_posts :: store where
  "orphan_posts = \<lparr>tables = no_rows(''posts'' :=
        [[(''id'', JStr ''p1''), (''content'', JStr ''first''), (''author_id'', JStr ''a1''),
          (''created_at'', JStr ''2024-05-01T10:00:00.000Z'')],
         [(''id'', JStr ''p2''), (''content'', JStr ''second''), (''author_id'', JStr ''a1''),
          (''created_at'', JStr ''2024-05-02T10:00:00.000Z'')],
         [(''id'', JStr ''p3''), (''content'', JStr ''third''), (''author_id'', JStr ''a1''),
          (''created_at'', JStr ''2024-05-03T10:00:00.000Z'')]]),
      faults = [], clock = []\<rparr>"

text \<open>Two posts of one author created at the same instant.\<close>

definition same_instant :: store where
  "same_instant = \<lparr>tables = no_rows(''posts'' :=
        [[(''id'', JStr ''p1''), (''content'', JStr ''first''), (''author_id'', JStr ''a1''),
          (''created_at'', JStr ''2024-05-01T10:00:00.000Z'')],
         [(''id'', JStr ''p2''), (''content'', JStr ''second''), (''author_id'', JStr ''a1''),
          (''created_at'', JStr ''2024-05-01T10:00:00.000Z'')]]),
      faults = [], clock = []\<rparr>"


section \<open>Properties\<close>

lemmas op_defs = getProfile_def updateProfile_def ensureProfileExists_def getPosts_def
  getPostsByAuthor_def createPost_def getConnections_def getConnectionStatus_def
  sendConnectionRequest_def getSuggestedConnections_def getConnectionRequests_def
  acceptConnectionRequest_def rejectConnectionRequest_def getExperiences_def getEducation_def
  getNotifications_def recordProfileView_def createComment_def getPostComments_def
  likePost_def unlikePost_def isPostLiked_def createInstitution_def getInstitutions_def
  createJob_def getJobs_def applyToJob_def createEvent_def getEvents_def registerForEvent_def
  followUser_def unfollowUser_def isFollowing_def getFollowers_def getFollowing_def
  getSuggestedInstitutions_def

lemmas builder_defs = query_def from_table_def rpc_def select_def select_embed_def
  select_count_head_def insert_row_def update_rows_def upsert_row_def delete_rows_def
  add_filter_def eq_def neq_def in_list_def not_in_def or_filter_def order_by_def
  range_rows_def limit_rows_def single_def maybeSingle_def

lemma checkSchemaExists_unreachable:
  assumes "probe_fails env (world s)"
  shows "checkSchemaExists env s =
           (Returned False, \<lparr>world = snd (respond env probe (world s)), trace = trace s @ [probe]\<rparr>)"
  using assms
  by (cases "respond env probe (world s)")
     (auto simp: probe_fails_def checkSchemaExists_def try_catch_def bnd_def await_def ret_def
           split: outcome.splits)

subsection \<open>Every operation returns\<close>



lemma invoke_unreachable:
  assumes "probe_fails env (world s)"
  shows "\<exists>v s'. invoke env c s = (Returned v, s') \<and> unreachable_default c v \<and>
           (trace s' = trace s @ [probe]
            \<or> (\<exists>u. c = GetNotifications u) \<or> (\<exists>u. c = RecordProfileView u u))"
  using checkSchemaExists_unreachable [OF assms]
  by (cases c)
     (simp_all add: op_defs Let_def try_catch_def bnd_def ret_def new_date_iso_def
               split: prod.splits)

lemma down_probe_fails: "probe_fails store_env (world (start down))"
  by (simp add: probe_fails_def store_env_def store_respond_def down_def start_def
      failure_def pg_error_def next_fault_def)

subsection \<open>The unreachable store\<close>

text \<open>
  C2. For every identifier, if the reachability probe fails, \<open>getProfile\<close> returns a
  placeholder profile that is not null, whose \<open>id\<close> is the given identifier and whose other
  fields are the generic defaults (the two timestamps are clock readings); the only request
  it issues is the probe, which is a read, so nothing is written.
\<close>

theorem getProfile_unreachable_placeholder:
  assumes "probe_fails env (world s)"
  shows "\<exists>created updated s'.
           getProfile env userId s =
             (Returned (JObj
                [(''id'', JStr userId),
                 (''email'', JStr ''user@example.com''),
                 (''full_name'', JStr ''User''),
                 (''headline'', JStr ''Healthcare Professional''),
                 (''bio'', JStr ''''),
                 (''location'', JStr ''''),
                 (''avatar_url'', JStr ''''),
                 (''banner_url'', JStr ''''),
                 (''website'', JStr ''''),
                 (''phone'', JStr ''''),
                 (''specialization'', JArr [JStr ''General Medicine'']),
                 (''is_premium'', JBool False),
                 (''profile_views'', JNum 0),
                 (''user_type'', JStr ''individual''),
                 (''profile_type'', JStr ''individual''),
                 (''created_at'', JStr created),
                 (''updated_at'', JStr updated)]), s')
           \<and> trace s' = trace s @ [probe] \<and> \<not> is_write probe"
  using checkSchemaExists_unreachable [OF assms]
  by (simp add: getProfile_def try_catch_def bnd_def ret_def new_date_iso_def is_write_def
        probe_def query_def select_def limit_rows_def from_table_def
      split: prod.splits)

theorem getProfile_unreachable_placeholder_witness:
  "probe_fails store_env (world (start down)) \<and>
   (\<exists>created updated s'.
      getProfile store_env ''u1'' (start down) =
        (Returned (JObj
           [(''id'', JStr ''u1''),
            (''email'', JStr ''user@example.com''),
            (''full_name'', JStr ''User''),
            (''headline'', JStr ''Healthcare Professional''),
            (''bio'', JStr ''''),
            (''location'', JStr ''''),
            (''avatar_url'', JStr ''''),
            (''banner_url'', JStr ''''),
            (''website'', JStr ''''),
            (''phone'', JStr ''''),
            (''specialization'', JArr [JStr ''General Medicine'']),
            (''is_premium'', JBool False),
            (''profile_views'', JNum 0),
            (''user_type'', JStr ''individual''),
            (''profile_type'', JStr ''individual''),
            (''created_at'', JStr created),
            (''updated_at'', JStr updated)]), s')
      \<and> trace s' = trace (start down) @ [probe] \<and> \<not> is_write probe)"
  using getProfile_unreachable_placeholder [OF down_probe_fails, of "''u1''"] down_probe_fails
  by blast

subsection \<open>Notifications\<close>

text \<open>
  C9. For every user and every state of the store, \<open>getNotifications\<close> returns the empty
  list and leaves the state as it was: it awaits no request, neither the probe nor a query.
  It is the one operation of which this is true for all its arguments: an invocation of an
  exported operation awaits no request in any environment exactly when it is
  \<open>getNotifications\<close>, or \<open>recordProfileView\<close> applied to a viewer and that same profile.
\<close>

theorem getNotifications_no_remote_call:
  fixes env :: "'w env" and s :: "'w run_state"
  shows "getNotifications env userId s = (Returned (JArr []), s) \<and>
         ((\<forall>(env' :: 'w env) s'. trace (snd (invoke env' c s')) = trace s')
            \<longleftrightarrow> ((\<exists>u. c = GetNotifications u) \<or> (\<exists>v. c = RecordProfileView v v)))"
proof -
  have first: "getNotifications env userId s = (Returned (JArr []), s)"
    by (simp add: getNotifications_def try_catch_def ret_def)
  have quiet: "trace (snd (invoke env' c s')) = trace s'"
    if "(\<exists>u. c = GetNotifications u) \<or> (\<exists>v. c = RecordProfileView v v)"
    for env' :: "'w env" and s'
    using that
    by (auto simp: getNotifications_def recordProfileView_def try_catch_def ret_def)
  have loud: "(\<exists>u. c = GetNotifications u) \<or> (\<exists>v. c = RecordProfileView v v)"
    if all: "\<forall>(env' :: 'w env) s'. trace (snd (invoke env' c s')) = trace s'"
  proof -
    define dead :: "'w env" where
      "dead = \<lparr>respond = (\<lambda>q w. (Raised JNull, w)), now = (\<lambda>w. ([], w))\<rparr>"
    have "probe_fails dead (world s)"
      by (simp add: probe_fails_def dead_def)
    from invoke_unreachable [OF this, of c] all [rule_format, of dead s]
    show ?thesis by auto
  qed
  from first quiet loud show ?thesis by blast
qed

theorem getNotifications_no_remote_call_witness:
  "getNotifications store_env ''u1'' (start down) = (Returned (JArr []), start down) \<and>
   trace (snd (invoke store_env (RecordProfileView ''u1'' ''u1'') (start down)))
     = trace (start down)"
  using getNotifications_no_remote_call
          [of store_env "''u1''" "start down" "RecordProfileView ''u1'' ''u1''"]
  by blast

subsection \<open>Reads on the store\<close>

lemma project_filters [simp]: "project tabs (q\<lparr>filters := fs\<rparr>) = project tabs q"
  by (simp add: fun_eq_iff project_def)

lemma bad_window_filters [simp]: "bad_window (q\<lparr>filters := fs\<rparr>) = bad_window q"
  by (simp add: bad_window_def split: option.splits)

lemma window_filters [simp]: "window (q\<lparr>filters := fs\<rparr>) = window q"
  by (simp add: fun_eq_iff window_def split: option.splits)

lemma ordered_filters [simp]: "ordered (q\<lparr>filters := fs\<rparr>) = ordered q"
  by (simp add: fun_eq_iff ordered_def split: option.splits)

lemma shape_filters [simp]: "shape (q\<lparr>filters := fs\<rparr>) = shape q"
  by (simp add: fun_eq_iff shape_def split: cardinality.splits)


lemma spent_simps [simp]:
  "tables (world (spent s q)) = tables (world s)"
  "faults (world (spent s q)) = tl (faults (world s))"
  "clock (world (spent s q)) = clock (world s)"
  "trace (spent s q) = trace s @ [q]"
  by (simp_all add: spent_def)

lemma await_store_read:
  assumes "verb q = Select"
  shows "await store_env q s =
           (answer (faults (world s)) (read_rows (tables (world s)) q), spent s q)"
  using assms
  by (simp add: await_def store_env_def store_respond_def execute_def spent_def answer_def
      split: fault.splits)

lemma answer_cases:
  obtains (threw) "next_fault fs = Throws" "answer fs res = Raised (JStr ''fetch failed'')"
  | (failed) code where "next_fault fs = Fails code" "answer fs res = Returned (failure code)"
  | (answered) "next_fault fs = Healthy" "answer fs res = Returned res"
  by (cases "next_fault fs") (simp_all add: answer_def)

lemma verb_probe: "verb probe = Select"
  by (simp add: probe_def builder_defs)

lemma probe_answer: "error (read_rows tabs probe) = JNull"
  by (simp add: probe_def builder_defs read_rows_def bad_window_def window_def shape_def
      reply_def)

lemma checkSchemaExists_store:
  "checkSchemaExists store_env s = (Returned (next_fault (faults (world s)) = Healthy), spent s probe)"
  by (cases "next_fault (faults (world s))")
     (simp_all add: checkSchemaExists_def try_catch_def bnd_def ret_def await_store_read
        verb_probe probe_answer failure_def pg_error_def answer_def)

subsection \<open>A missing profile\<close>

text \<open>
  C1 does not hold of the code. \<open>getProfile\<close> reads with \<open>maybeSingle\<close>, which answers no
  error when no row matches, so the branch that synthesizes the placeholder on
  \<open>PGRST116\<close> is not taken: on a reachable store with no profile row, the result is null.
\<close>

theorem getProfile_missing_row_is_null:
  "tables empty_store ''profiles'' = [] \<and> faults empty_store = [] \<and>
   result (getProfile store_env ''u1'' (start empty_store)) = Returned JNull"
  by code_simp

subsection \<open>Connection status\<close>




subsection \<open>Lookup or create\<close>

lemma next_fault_Nil [simp]: "next_fault [] = Healthy"
  by (simp add: next_fault_def)

lemma answer_Nil [simp]: "answer [] res = Returned res"
  by (simp add: answer_def)

lemma await_store_healthy:
  assumes "faults (world s) = []"
  shows "await store_env q s =
     (Returned (fst (execute q (tables (world s)))),
      \<lparr>world = (world s)\<lparr>tables := snd (execute q (tables (world s))), faults := []\<rparr>,
       trace = trace s @ [q]\<rparr>)"
  using assms
  by (simp add: await_def store_env_def store_respond_def split: prod.splits)

lemma profile_fetch:
  "read_rows tabs (query ''profiles'' [select [''*''], eq ''id'' (JStr userId), single]) =
     (case filter (\<lambda>r. sql_eq (col r ''id'') (JStr userId)) (tabs ''profiles'') of
        [r] \<Rightarrow> reply (JObj r) | _ \<Rightarrow> failure ''PGRST116'')"
  by (simp add: read_rows_def builder_defs matching_def bad_window_def window_def ordered_def
        shape_def project_def Let_def
      split: list.splits)

lemma ensure_existing:
  assumes "faults w = []"
    and "filter (\<lambda>r. sql_eq (col r ''id'') (JStr userId)) (tables w ''profiles'') = [r]"
  shows "ensureProfileExists store_env userId email fullName (start w) =
     (Returned (JObj r),
      \<lparr>world = w, trace = [probe, query ''profiles'' [select [''*''], eq ''id'' (JStr userId), single]]\<rparr>)"
proof -
  have sel: "verb (query ''profiles'' [select [''*''], eq ''id'' (JStr userId), single]) = Select"
    by (simp add: builder_defs)
  show ?thesis
    using assms
    by (simp add: ensureProfileExists_def try_catch_def bnd_def checkSchemaExists_store
        await_store_read sel spent_def start_def profile_fetch reply_def ret_def)
qed

lemma new_date_store:
  "new_date_iso store_env s =
     (Returned (JStr (case clock (world s) of [] \<Rightarrow> [] | t # ts \<Rightarrow> t)),
      s\<lparr>world := (world s)\<lparr>clock := tl (clock (world s))\<rparr>\<rparr>)"
  by (cases "clock (world s)") (simp_all add: new_date_iso_def store_env_def store_now_def)

lemma profile_insert:
  "execute (query ''profiles'' [insert_row r, select [''*''], single]) tabs =
     (reply (JObj r), tabs(''profiles'' := tabs ''profiles'' @ [r]))"
  by (simp add: execute_def builder_defs written_def shape_def project_def Let_def)

lemma ensure_missing:
  assumes "faults w = []"
    and "filter (\<lambda>r. sql_eq (col r ''id'') (JStr userId)) (tables w ''profiles'') = []"
  shows "\<exists>created updated tr.
     ensureProfileExists store_env userId email fullName (start w) =
     (Returned (JObj [(''id'', JStr userId), (''email'', JStr email), (''full_name'', JStr fullName),
                  (''created_at'', JStr created), (''updated_at'', JStr updated)]),
      \<lparr>world = w\<lparr>tables := (tables w)(''profiles'' := tables w ''profiles'' @
                 [[(''id'', JStr userId), (''email'', JStr email), (''full_name'', JStr fullName),
                  (''created_at'', JStr created), (''updated_at'', JStr updated)]]),
                 clock := tl (tl (clock w))\<rparr>, trace = tr\<rparr>)"
proof -
  have sel: "verb (query ''profiles'' [select [''*''], eq ''id'' (JStr userId), single]) = Select"
    by (simp add: builder_defs)
  show ?thesis
    using assms
    by (simp add: ensureProfileExists_def try_catch_def bnd_def checkSchemaExists_store
        await_store_read sel spent_def start_def profile_fetch failure_def pg_error_def ret_def
        new_date_store await_store_healthy profile_insert reply_def)
qed


lemma reads_only:
  "\<not> list_ex is_write [probe, query ''profiles'' [select [''*''], eq ''id'' (JStr userId), single]]"
  by (simp add: is_write_def probe_def builder_defs)

text \<open>
  C4. On a store that answers every call and holds at most one profile row for the
  identifier, two calls of \<open>ensureProfileExists\<close> in sequence return the same stored
  record. The first call appends the minimal record (identifier, email, name and two
  timestamps) exactly when no row was stored, and otherwise changes no table; the second
  call returns the row that is then stored, issues no write and leaves every table as the
  first call left it.
\<close>

theorem ensureProfileExists_idempotent:
  assumes healthy: "faults w = []"
      and key: "length (profile_rows w userId) \<le> 1"
      and first: "first = ensureProfileExists store_env userId email fullName (start w)"
      and second: "second = ensureProfileExists store_env userId email fullName
                              (start (final_world first))"
  shows "\<exists>r. result first = Returned (JObj r)
           \<and> result second = Returned (JObj r)
           \<and> profile_rows (final_world first) userId = [r]
           \<and> tables (final_world second) = tables (final_world first)
           \<and> \<not> list_ex is_write (requests second)
           \<and> (if profile_rows w userId = []
                then tables (final_world first)
                       = (tables w)(''profiles'' := tables w ''profiles'' @ [r])
                     \<and> (\<exists>created updated.
                           r = [(''id'', JStr userId), (''email'', JStr email),
                                (''full_name'', JStr fullName),
                                (''created_at'', JStr created), (''updated_at'', JStr updated)])
                else tables (final_world first) = tables w
                     \<and> profile_rows w userId = [r]
                     \<and> \<not> list_ex is_write (requests first))"
proof (cases "profile_rows w userId")
  case Nil
  then have none: "filter (\<lambda>r. sql_eq (col r ''id'') (JStr userId)) (tables w ''profiles'') = []"
    by (simp add: profile_rows_def)
  from ensure_missing [OF healthy none, of email fullName]
  obtain created updated tr where run1:
    "first = (Returned (JObj [(''id'', JStr userId), (''email'', JStr email),
                  (''full_name'', JStr fullName),
                  (''created_at'', JStr created), (''updated_at'', JStr updated)]),
      \<lparr>world = w\<lparr>tables := (tables w)(''profiles'' := tables w ''profiles'' @
                 [[(''id'', JStr userId), (''email'', JStr email), (''full_name'', JStr fullName),
                  (''created_at'', JStr created), (''updated_at'', JStr updated)]]),
                 clock := tl (tl (clock w))\<rparr>, trace = tr\<rparr>)"
    unfolding first by blast
  let ?r = "[(''id'', JStr userId), (''email'', JStr email), (''full_name'', JStr fullName),
             (''created_at'', JStr created), (''updated_at'', JStr updated)]"
  let ?w1 = "final_world first"
  have w1: "?w1 = w\<lparr>tables := (tables w)(''profiles'' := tables w ''profiles'' @ [?r]),
                      clock := tl (tl (clock w))\<rparr>"
    by (simp add: run1 final_world_def)
  have healthy1: "faults ?w1 = []"
    by (simp add: w1 healthy)
  have one: "filter (\<lambda>r. sql_eq (col r ''id'') (JStr userId)) (tables ?w1 ''profiles'') = [?r]"
    by (simp add: w1 none) (simp add: sql_eq_def col_def)
  from ensure_existing [OF healthy1 one, of email fullName]
  have run2: "second = (Returned (JObj ?r),
      \<lparr>world = ?w1, trace = [probe, query ''profiles''
                                  [select [''*''], eq ''id'' (JStr userId), single]]\<rparr>)"
    unfolding second .
  have "result first = Returned (JObj ?r)"
    by (simp add: run1 result_def)
  moreover have "result second = Returned (JObj ?r)"
    by (simp add: run2 result_def)
  moreover have "profile_rows ?w1 userId = [?r]"
    using one by (simp add: profile_rows_def)
  moreover have "tables (final_world second) = tables ?w1"
    by (simp add: run2 final_world_def)
  moreover have "\<not> list_ex is_write (requests second)"
    using reads_only [of userId] by (simp add: run2 requests_def)
  moreover have "tables ?w1 = (tables w)(''profiles'' := tables w ''profiles'' @ [?r])"
    by (simp add: w1)
  ultimately show ?thesis
    using Nil by auto
next
  case (Cons r rest)
  with key have rest: "rest = []" by simp
  with Cons have one: "filter (\<lambda>r. sql_eq (col r ''id'') (JStr userId)) (tables w ''profiles'') = [r]"
    by (simp add: profile_rows_def)
  from ensure_existing [OF healthy one, of email fullName]
  have run1: "first = (Returned (JObj r),
      \<lparr>world = w, trace = [probe, query ''profiles''
                              [select [''*''], eq ''id'' (JStr userId), single]]\<rparr>)"
    unfolding first .
  have w1: "final_world first = w"
    by (simp add: run1 final_world_def)
  from ensure_existing [OF healthy one, of email fullName]
  have run2: "second = (Returned (JObj r),
      \<lparr>world = w, trace = [probe, query ''profiles''
                              [select [''*''], eq ''id'' (JStr userId), single]]\<rparr>)"
    unfolding second w1 .
  show ?thesis
    using Cons rest reads_only [of userId]
    by (auto simp: run1 run2 result_def final_world_def requests_def)
qed

theorem ensureProfileExists_idempotent_witness:
  "faults two_profiles = [] \<and> length (profile_rows two_profiles ''u1'') \<le> 1 \<and>
   (\<exists>r. result (ensureProfileExists store_env ''u1'' ''a@example.com'' ''Ann'' (start two_profiles))
          = Returned (JObj r)
      \<and> result (ensureProfileExists store_env ''u1'' ''a@example.com'' ''Ann''
            (start (final_world
               (ensureProfileExists store_env ''u1'' ''a@example.com'' ''Ann'' (start two_profiles)))))
          = Returned (JObj r)
      \<and> profile_rows (final_world
            (ensureProfileExists store_env ''u1'' ''a@example.com'' ''Ann'' (start two_profiles))) ''u1''
          = [r])"
proof -
  have h1: "faults two_profiles = []" by code_simp
  have h2: "length (profile_rows two_profiles ''u1'') \<le> 1" by code_simp
  from ensureProfileExists_idempotent [OF h1 h2 refl refl, of "''a@example.com''" "''Ann''"] h1 h2
  show ?thesis by blast
qed

subsection \<open>Pagination\<close>


lemma length_ordered [simp]: "length (ordered q rows) = length rows"
  by (simp add: ordered_def split: option.splits)










subsection \<open>Posts and their authors\<close>

lemma map_of_set_field: "map_of (set_field k v kvs) = (map_of kvs)(k \<mapsto> v)"
  by (induction kvs) (auto simp: fun_eq_iff)

lemma get_prop_fields_of: "get_prop (JObj (fields_of post)) k = get_prop post k"
  by (cases post) simp_all

lemma with_author_props:
  "get_prop (with_author post a) ''author'' = a"
  "get_prop (with_author post a) ''author_id'' = get_prop post ''author_id''"
  "get_prop (with_author post a) ''created_at'' = get_prop post ''created_at''"
  using get_prop_fields_of [of post]
  by (simp_all add: with_author_def map_of_set_field)





lemma project_plain:
  assumes "embeds q = []"
  shows "project tabs q =
           (\<lambda>r. if columns q = [''*''] \<or> columns q = [] then r
                else map (\<lambda>c. (c, col r c)) (columns q))"
  using assms by (simp add: fun_eq_iff project_def)

lemma posts_by_author_read:
  "read_rows tabs (query ''posts''
      [select [''*''], eq ''author_id'' (JStr a), order_by ''created_at'' False])
   = reply (JArr (map JObj (author_posts tabs a)))"
  by (simp add: read_rows_def builder_defs matching_def bad_window_def window_def ordered_def
        shape_def project_plain author_posts_def Let_def)

lemma author_read:
  "read_rows tabs (query ''profiles''
      [select [''id'', ''full_name'', ''avatar_url'', ''headline'', ''email''],
       eq ''id'' (JStr a), single])
   = (case filter (\<lambda>r. sql_eq (col r ''id'') (JStr a)) (tabs ''profiles'') of
        [r] \<Rightarrow> reply (author_summary r) | _ \<Rightarrow> failure ''PGRST116'')"
  by (simp add: read_rows_def builder_defs matching_def bad_window_def window_def ordered_def
        shape_def project_plain author_summary_def Let_def
      split: list.splits)

lemma by_author_verbs:
  "verb (query ''posts''
      [select [''*''], eq ''author_id'' (JStr a), order_by ''created_at'' False]) = Select"
  "verb (query ''profiles''
      [select [''id'', ''full_name'', ''avatar_url'', ''headline'', ''email''],
       eq ''id'' (JStr a), single]) = Select"
  by (simp_all add: builder_defs)

lemma js_rows_objects: "js_rows (JArr (map JObj rows)) s = (Returned (map JObj rows), s)"
  by (auto simp: js_rows_def ret_def)

lemma getPostsByAuthor_store:
  "\<exists>posts. (posts = [] \<or> posts = author_posts (tables w) a) \<and>
     (result (getPostsByAuthor store_env a (start w))
        = Returned (JArr (map (\<lambda>p. with_author (JObj p) (unknown_author (JObj p))) posts))
      \<or> (\<exists>r. profile_rows w a = [r] \<and> next_fault (drop 2 (faults w)) = Healthy \<and>
            result (getPostsByAuthor store_env a (start w))
              = Returned (JArr (map (\<lambda>p. with_author (JObj p) (author_summary r)) posts))))"
proof -
  let ?posts = "read_rows (tables w) (query ''posts''
      [select [''*''], eq ''author_id'' (JStr a), order_by ''created_at'' False])"
  let ?author = "read_rows (tables w) (query ''profiles''
      [select [''id'', ''full_name'', ''avatar_url'', ''headline'', ''email''],
       eq ''id'' (JStr a), single])"
  let ?run = "getPostsByAuthor store_env a (start w)"
  have d2: "drop 2 (faults w) = tl (tl (faults w))"
    by (simp add: drop_Suc numeral_2_eq_2 drop_tl)
  note unfold = getPostsByAuthor_def result_def try_catch_def bnd_def checkSchemaExists_store
    await_store_read by_author_verbs start_def ret_def
  have empty: "result ?run = Returned (JArr []) \<Longrightarrow> ?thesis"
    by (rule exI [of _ "[]"]) simp
  show ?thesis
  proof (cases "next_fault (faults w) = Healthy")
    case False
    then have "result ?run = Returned (JArr [])" by (simp add: unfold)
    then show ?thesis by (rule empty)
  next
    case up: True
    show ?thesis
    proof (cases rule: answer_cases [of "tl (faults w)" ?posts])
      case threw
      with up have "result ?run = Returned (JArr [])" by (simp add: unfold)
      then show ?thesis by (rule empty)
    next
      case (failed code)
      with up have "result ?run = Returned (JArr [])"
        by (simp add: unfold failure_def pg_error_def)
      then show ?thesis by (rule empty)
    next
      case answered
      show ?thesis
      proof (cases "author_posts (tables w) a = []")
        case True
        with up answered have "result ?run = Returned (JArr [])"
          by (simp add: unfold posts_by_author_read reply_def)
        then show ?thesis by (rule empty)
      next
        case some: False
        show ?thesis
        proof (cases rule: answer_cases [of "tl (tl (faults w))" ?author])
          case threw
          with up answered some have "result ?run = Returned (JArr [])"
            by (simp add: unfold posts_by_author_read reply_def)
          then show ?thesis by (rule empty)
        next
          case (failed code)
          with up answered some have "result ?run = Returned (JArr
              (map (\<lambda>p. with_author (JObj p) (unknown_author (JObj p))) (author_posts (tables w) a)))"
            by (simp add: unfold posts_by_author_read reply_def failure_def pg_error_def
                js_rows_objects comp_def)
          then show ?thesis by blast
        next
          case healthy: answered
          show ?thesis
          proof (cases "\<exists>r. profile_rows w a = [r]")
            case True
            then obtain r where r: "profile_rows w a = [r]" ..
            with up answered some healthy have "result ?run = Returned (JArr
                (map (\<lambda>p. with_author (JObj p) (author_summary r)) (author_posts (tables w) a)))"
              by (simp add: unfold posts_by_author_read reply_def author_read profile_rows_def
                  js_rows_objects comp_def author_summary_def js_or_def)
            with r healthy d2 show ?thesis by auto
          next
            case False
            with up answered some healthy have "result ?run = Returned (JArr
              (map (\<lambda>p. with_author (JObj p) (unknown_author (JObj p))) (author_posts (tables w) a)))"
              by (simp add: unfold posts_by_author_read reply_def author_read profile_rows_def
                  js_rows_objects comp_def failure_def pg_error_def split: list.splits)
            then show ?thesis by blast
          qed
        qed
      qed
    qed
  qed
qed

lemma newest_first_author_posts:
  "newest_first (map (\<lambda>p. with_author (JObj p) (f p)) (author_posts tabs a))"
proof -
  let ?key = "\<lambda>r. sort_rank (col r ''created_at'')"
  let ?rows = "filter (\<lambda>r. sql_eq (col r ''author_id'') (JStr a)) (tabs ''posts'')"
  have "sorted (map ?key (sort_key ?key ?rows))"
    by (rule sorted_sort_key)
  then have "sorted_wrt (\<lambda>x y. ?key x \<le> ?key y) (sort_key ?key ?rows)"
    by (simp add: sorted_wrt_map)
  then have "sorted_wrt (\<lambda>x y. ?key y \<le> ?key x) (rev (sort_key ?key ?rows))"
    by (simp add: sorted_wrt_rev)
  then show ?thesis
    by (simp add: newest_first_def author_posts_def sorted_wrt_map with_author_props col_def)
qed



text \<open>
  C6, amended. For every author identifier and every state of the store,
  \<open>getPostsByAuthor\<close> returns a list in descending \<open>created_at\<close> order (newest first,
  posts of the same instant next to each other); every returned post carries an author
  that is not null; and every returned post carries the "Unknown User" placeholder (blank
  avatar, headline and email) when no profile row is stored for the author or the fetch
  of the author is not answered by the tables.
\<close>

theorem getPostsByAuthor_newest_first:
  "(\<exists>posts. result (getPostsByAuthor store_env authorId (start w)) = Returned (JArr posts)) \<and>
   newest_first (returned_rows (result (getPostsByAuthor store_env authorId (start w)))) \<and>
   list_all has_author (returned_rows (result (getPostsByAuthor store_env authorId (start w)))) \<and>
   (profile_rows w authorId = [] \<or> next_fault (drop 2 (faults w)) \<noteq> Healthy \<longrightarrow>
      list_all has_unknown_author
        (returned_rows (result (getPostsByAuthor store_env authorId (start w)))))"
proof -
  let ?run = "result (getPostsByAuthor store_env authorId (start w))"
  from getPostsByAuthor_store [of w authorId]
  obtain posts where posts: "posts = [] \<or> posts = author_posts (tables w) authorId"
    and run: "?run = Returned (JArr (map (\<lambda>p. with_author (JObj p) (unknown_author (JObj p))) posts))
      \<or> (\<exists>r. profile_rows w authorId = [r] \<and> next_fault (drop 2 (faults w)) = Healthy \<and>
            ?run = Returned (JArr (map (\<lambda>p. with_author (JObj p) (author_summary r)) posts)))"
    by blast
  have sorted: "newest_first (map (\<lambda>p. with_author (JObj p) (f p)) posts)" for f
    using posts newest_first_author_posts [of f "tables w" authorId]
    by (auto simp: newest_first_def)
  have unknown: "has_unknown_author (with_author (JObj p) (unknown_author (JObj p)))"
                "has_author (with_author (JObj p) (unknown_author (JObj p)))"
                "has_author (with_author (JObj p) (author_summary r))" for p r
    by (simp_all add: has_unknown_author_def has_author_def with_author_props unknown_author_def
          author_summary_def)
  from run show ?thesis
  proof
    assume "?run = Returned (JArr (map (\<lambda>p. with_author (JObj p) (unknown_author (JObj p))) posts))"
    then show ?thesis
      using sorted [of "\<lambda>p. unknown_author (JObj p)"] unknown
      by (simp add: list_all_iff)
  next
    assume "\<exists>r. profile_rows w authorId = [r] \<and> next_fault (drop 2 (faults w)) = Healthy \<and>
            ?run = Returned (JArr (map (\<lambda>p. with_author (JObj p) (author_summary r)) posts))"
    then obtain r where "profile_rows w authorId = [r]" "next_fault (drop 2 (faults w)) = Healthy"
      "?run = Returned (JArr (map (\<lambda>p. with_author (JObj p) (author_summary r)) posts))"
      by blast
    then show ?thesis
      using sorted [of "\<lambda>p. author_summary r"] unknown
      by (simp add: list_all_iff)
  qed
qed

theorem getPostsByAuthor_newest_first_witness:
  "profile_rows orphan_posts ''a1'' = [] \<and>
   (\<exists>posts. result (getPostsByAuthor store_env ''a1'' (start orphan_posts)) = Returned (JArr posts)) \<and>
   newest_first (returned_rows (result (getPostsByAuthor store_env ''a1'' (start orphan_posts)))) \<and>
   list_all has_author (returned_rows (result (getPostsByAuthor store_env ''a1'' (start orphan_posts)))) \<and>
   list_all has_unknown_author
        (returned_rows (result (getPostsByAuthor store_env ''a1'' (start orphan_posts)))) \<and>
   length (returned_rows (result (getPostsByAuthor store_env ''a1'' (start orphan_posts)))) = 3"
proof -
  have h: "profile_rows orphan_posts ''a1'' = []" by code_simp
  have n: "length (returned_rows (result (getPostsByAuthor store_env ''a1'' (start orphan_posts)))) = 3"
    by code_simp
  from getPostsByAuthor_newest_first [of "''a1''" orphan_posts] h n
  show ?thesis by blast
qed

text \<open>
  C6, as the specification states it, fails on ties: the store orders on \<open>created_at\<close>
  alone, and two posts of one author created at the same instant are both returned, so
  the order is not strictly descending.
\<close>

theorem getPostsByAuthor_ties_not_strict:
  "result (getPostsByAuthor store_env ''a1'' (start same_instant)) =
     Returned (JArr
       [JObj [(''id'', JStr ''p2''), (''content'', JStr ''second''), (''author_id'', JStr ''a1''),
              (''created_at'', JStr ''2024-05-01T10:00:00.000Z''),
              (''author'', JObj [(''id'', JStr ''a1''), (''full_name'', JStr ''Unknown User''),
                 (''avatar_url'', JStr ''''), (''headline'', JStr ''''), (''email'', JStr '''')])],
        JObj [(''id'', JStr ''p1''), (''content'', JStr ''first''), (''author_id'', JStr ''a1''),
              (''created_at'', JStr ''2024-05-01T10:00:00.000Z''),
              (''author'', JObj [(''id'', JStr ''a1''), (''full_name'', JStr ''Unknown User''),
                 (''avatar_url'', JStr ''''), (''headline'', JStr ''''), (''email'', JStr '''')])]]) \<and>
   \<not> strictly_newest_first
       (returned_rows (result (getPostsByAuthor store_env ''a1'' (start same_instant))))"
  by code_simp



subsection \<open>Suggestions\<close>

text \<open>
  C7 does not hold of the code. \<open>getSuggestedInstitutions\<close> filters on the profile type and
  on the followed identifiers only; unlike \<open>getSuggestedConnections\<close> it has no filter on
  the requester. For a requester that is an institution, its own profile is suggested.
\<close>

theorem getSuggestedInstitutions_suggests_requester:
  "result (getSuggestedInstitutions store_env ''inst1'' (Some 10) (start lone_institution))
     = Returned (JArr [JObj [(''id'', JStr ''inst1''), (''full_name'', JStr ''City Hospital''),
                             (''profile_type'', JStr ''institution'')]]) \<and>
   result (getSuggestedConnections store_env ''inst1'' (Some 10) (start lone_institution))
     = Returned (JArr [])"
  by code_simp

subsection \<open>Totality at the boundary\<close>




end
